theory Spec2Isabelle
  imports Complex_Main "HOL-Library.Multiset"
begin

section \<open>Data model\<close>

text \<open>
  The module \<^verbatim>\<open>data_processing.py\<close> works on pandas data frames. A frame is modelled
  column-wise, as pandas stores it: an index length and an ordered list of named columns,
  each column a dtype and one cell per row. The dtypes are the ones the spreadsheet reader
  produces. A missing value (NaN, None, NaT) is the single cell \<open>Null\<close>, which is what
  \<^verbatim>\<open>isna\<close> tests. Floating-point numbers are idealised as reals; a timestamp is a number
  of nanoseconds since the epoch.
\<close>

datatype dtype = Float64 | Int64 | Bool | Datetime64 | Object

datatype cell = Null | Num real | Str string | Flag bool | Stamp int

datatype column = Column (dtype: dtype) (cells: "cell list")

record dataframe =
  nrows :: nat
  columns :: "(string \<times> column) list"

datatype error = KeyError string | AttributeError | TypeError | ValueError

text \<open>
  A frame is well formed when its column names are pairwise different and every column has
  one cell per row. The loader only produces such frames.
\<close>

definition wf_df :: "dataframe \<Rightarrow> bool" where
  "wf_df df \<longleftrightarrow>
     distinct (map fst (columns df)) \<and>
     list_all (\<lambda>nc. length (cells (snd nc)) = nrows df) (columns df)"

definition isna :: "cell \<Rightarrow> bool" where
  "isna v \<longleftrightarrow> v = Null"

definition is_numeric :: "dtype \<Rightarrow> bool" where
  \<comment> \<open>\<^verbatim>\<open>dtype == 'float64' or dtype == 'int64'\<close>\<close>
  "is_numeric t \<longleftrightarrow> t = Float64 \<or> t = Int64"

text \<open>\<^verbatim>\<open>col in df.columns\<close> and \<^verbatim>\<open>df[col]\<close>.\<close>

definition has_column :: "dataframe \<Rightarrow> string \<Rightarrow> bool" where
  "has_column df n \<longleftrightarrow> n \<in> set (map fst (columns df))"

definition get_column :: "dataframe \<Rightarrow> string \<Rightarrow> column option" where
  "get_column df n = map_of (columns df) n"

section \<open>Cleaner\<close>

text \<open>
  \<^verbatim>\<open>df.dropna(axis=1, how='all')\<close> keeps the columns that hold at least one value that
  is not missing. A column without any cell is dropped too.
\<close>

definition dropna_all :: "dataframe \<Rightarrow> dataframe" where
  "dropna_all df =
     df\<lparr>columns := filter (\<lambda>nc. list_ex (\<lambda>v. \<not> isna v) (cells (snd nc))) (columns df)\<rparr>"

text \<open>Which cells a dtype stores without turning the column into an object column.\<close>

fun can_hold :: "dtype \<Rightarrow> cell \<Rightarrow> bool" where
  "can_hold Object v = True"
| "can_hold Float64 (Num x) = True"
| "can_hold Int64 (Num x) = (x \<in> \<int>)"
| "can_hold Bool (Flag b) = True"
| "can_hold Datetime64 (Stamp t) = True"
| "can_hold t v = False"

text \<open>
  \<^verbatim>\<open>Series.fillna(value)\<close>, for the two calls of the source, \<^verbatim>\<open>fillna(0)\<close> and
  \<^verbatim>\<open>fillna('')\<close>. A datetime column reads the empty string as NaT, so \<^verbatim>\<open>fillna('')\<close>
  leaves it as it is, missing cells and dtype. In any other column every missing cell
  becomes \<open>value\<close> and the others stay; a column that had a missing cell and cannot
  store the value becomes an object column.
\<close>

definition fillna :: "cell \<Rightarrow> column \<Rightarrow> column" where
  "fillna v c =
     (if dtype c = Datetime64 \<and> v = Str [] then c
      else Column (if list_ex isna (cells c) \<and> \<not> can_hold (dtype c) v then Object else dtype c)
             (map (\<lambda>x. if isna x then v else x) (cells c)))"

text \<open>The body of the loop of \<^verbatim>\<open>clean_data\<close>, for one column.\<close>

definition clean_column :: "column \<Rightarrow> column" where
  "clean_column c =
     (if dtype c = Float64 \<or> dtype c = Int64 then fillna (Num 0) c
      else fillna (Str []) c)"

text \<open>
  \<^verbatim>\<open>clean_data\<close>: drop the columns that are missing throughout, then assign to every
  remaining column its filled version, in column order.
\<close>

definition clean_data :: "dataframe \<Rightarrow> dataframe" where
  "clean_data df =
     (let df1 = dropna_all df
      in df1\<lparr>columns := map (\<lambda>nc. (fst nc, clean_column (snd nc))) (columns df1)\<rparr>)"

text \<open>A small frame for evaluating the Cleaner: B is missing throughout.\<close>

definition sample_frame :: dataframe where
  "sample_frame =
     \<lparr>nrows = 2,
      columns = [(''A'', Column Float64 [Num 1, Null]),
                 (''B'', Column Object [Null, Null]),
                 (''C'', Column Object [Str ''x'', Null])]\<rparr>"

text \<open>A frame whose DATE column, of datetime dtype, has a missing date.\<close>

definition dated_frame :: dataframe where
  "dated_frame =
     \<lparr>nrows = 2,
      columns = [(''DATE'', Column Datetime64 [Stamp 1704067200000000000, Null]),
                 (''NOTE'', Column Object [Str ''ok'', Null])]\<rparr>"

section \<open>Column categorization\<close>

text \<open>\<^verbatim>\<open>sub in s\<close> on Python strings: \<open>sub\<close> occurs in \<open>s\<close> as a contiguous run.\<close>

fun starts_with :: "string \<Rightarrow> string \<Rightarrow> bool" where
  "starts_with [] s = True"
| "starts_with (a # as) [] = False"
| "starts_with (a # as) (b # bs) = (a = b \<and> starts_with as bs)"

fun contains :: "string \<Rightarrow> string \<Rightarrow> bool" where
  "contains sub [] = (sub = [])"
| "contains sub (c # cs) = (starts_with sub (c # cs) \<or> contains sub cs)"

record categories =
  metadata :: "string list"
  vibration :: "string list"
  bearing :: "string list"
  shaft :: "string list"
  other :: "string list"

definition metadata_names :: "string list" where
  "metadata_names =
     [''MP_NUMBER'', ''MP_NAME'', ''COMP_NUMBER'', ''COMP_NAME'', ''VESSEL_NAME'',
      ''DATE'', ''TIME'', ''TIMESTAMP'']"

definition is_vibration :: "string \<Rightarrow> bool" where
  "is_vibration col \<longleftrightarrow>
     contains ''Vib'' col \<or> contains ''Vel'' col \<or> contains ''Acc'' col \<or> contains ''Disp'' col"

definition is_bearing :: "string \<Rightarrow> bool" where
  "is_bearing col \<longleftrightarrow> contains ''Bearing'' col \<or> contains ''Cuscinetto'' col"

definition is_shaft :: "string \<Rightarrow> bool" where
  "is_shaft col \<longleftrightarrow> contains ''Shaft'' col"

text \<open>
  \<^verbatim>\<open>get_column_categories\<close>: the metadata bucket is a fixed list; the next three buckets
  are each a comprehension over all columns of the frame; \<open>other\<close> takes the columns
  that are in none of the four lists built before it.
\<close>

definition get_column_categories :: "dataframe \<Rightarrow> categories" where
  "get_column_categories df =
     (let cols = map fst (columns df);
          vib = filter is_vibration cols;
          bea = filter is_bearing cols;
          sha = filter is_shaft cols;
          all_categorized = metadata_names @ vib @ bea @ sha @ []
      in \<lparr>metadata = metadata_names, vibration = vib, bearing = bea, shaft = sha,
          other = filter (\<lambda>col. col \<notin> set all_categorized) cols\<rparr>)"

text \<open>A frame with one column whose name matches the patterns of two buckets.\<close>

definition bearing_vib_frame :: dataframe where
  "bearing_vib_frame =
     \<lparr>nrows = 1,
      columns = [(''DATE'', Column Datetime64 [Stamp 0]),
                 (''Bearing Vib'', Column Float64 [Num 1]),
                 (''Temp'', Column Float64 [Num 2])]\<rparr>"

section \<open>Filtering\<close>

text \<open>
  A Filter Spec is a Python dict from column name to a scalar or a list of scalars; it is
  modelled by the list of its items in iteration order. A scalar is a number (the exact
  value of the Python int or float), a string, a flag, a timestamp, \<open>None\<close> or NaN.
\<close>

datatype pyval = PNum real | PStr string | PFlag bool | PStamp int | PNone | PNaN

datatype fval = Scalar pyval | Values "pyval list"

text \<open>Python truth value of a filter value, as tested by \<^verbatim>\<open>and values\<close>.\<close>

fun truthy :: "fval \<Rightarrow> bool" where
  "truthy (Values vs) = (vs \<noteq> [])"
| "truthy (Scalar PNone) = False"
| "truthy (Scalar PNaN) = True"
| "truthy (Scalar (PNum x)) = (x \<noteq> 0)"
| "truthy (Scalar (PStr s)) = (s \<noteq> [])"
| "truthy (Scalar (PFlag b)) = b"
| "truthy (Scalar (PStamp t)) = True"

text \<open>The cell that holds a scalar.\<close>

fun cell_of :: "pyval \<Rightarrow> cell" where
  "cell_of (PNum x) = Num x"
| "cell_of (PStr s) = Str s"
| "cell_of (PFlag b) = Flag b"
| "cell_of (PStamp t) = Stamp t"
| "cell_of PNone = Null"
| "cell_of PNaN = Null"

text \<open>
  pandas compares a cell with a scalar directly when the scalar is of the kind the
  column's dtype stores: a number with a numeric column, a flag with a flag column, a
  timestamp with a datetime column, a string with an object column. Integers take part
  in such a comparison exactly up to \<open>2\<^sup>5\<^sup>3\<close>, the range in which int64 and float64
  agree. In every other case pandas converts one side first (it parses a text given for
  a datetime column, widens integers to floating point, looks up None and NaN by its own
  rules).
\<close>

definition exact_bound :: real where
  "exact_bound = 9007199254740992"

fun plain_cell :: "dtype \<Rightarrow> cell \<Rightarrow> bool" where
  "plain_cell Object x = True"
| "plain_cell Float64 (Num x) = True"
| "plain_cell Float64 Null = True"
| "plain_cell Int64 (Num x) = (x \<in> \<int> \<and> \<bar>x\<bar> \<le> exact_bound)"
| "plain_cell Bool (Flag b) = True"
| "plain_cell Datetime64 (Stamp t) = True"
| "plain_cell Datetime64 Null = True"
| "plain_cell t x = False"

fun plain_value :: "dtype \<Rightarrow> pyval \<Rightarrow> bool" where
  "plain_value Object (PStr s) = True"
| "plain_value Float64 (PNum a) = (if a \<in> \<int> then \<bar>a\<bar> \<le> exact_bound else True)"
| "plain_value Int64 (PNum a) = (if a \<in> \<int> then \<bar>a\<bar> \<le> exact_bound else True)"
| "plain_value Bool (PFlag b) = True"
| "plain_value Datetime64 (PStamp t) = True"
| "plain_value t w = False"

text \<open>
  The comparisons that pandas makes after a conversion are parameters of the model:
  \<open>coerced_eq\<close> for \<^verbatim>\<open>==\<close> and \<open>coerced_isin\<close> for \<^verbatim>\<open>isin\<close>, each for one cell of a column
  of the given dtype.
\<close>

record compare_lib =
  coerced_eq :: "dtype \<Rightarrow> cell \<Rightarrow> pyval \<Rightarrow> bool"
  coerced_isin :: "dtype \<Rightarrow> cell \<Rightarrow> pyval list \<Rightarrow> bool"

text \<open>
  Elementwise \<^verbatim>\<open>column == value\<close> and \<^verbatim>\<open>column.isin(values)\<close>, for one cell of a
  column of dtype \<open>t\<close>. A direct comparison is equality of values; a missing cell equals
  nothing.
\<close>

definition elem_eq :: "compare_lib \<Rightarrow> dtype \<Rightarrow> cell \<Rightarrow> pyval \<Rightarrow> bool" where
  "elem_eq Q t x w =
     (if plain_cell t x \<and> plain_value t w then x = cell_of w else coerced_eq Q t x w)"

definition elem_isin :: "compare_lib \<Rightarrow> dtype \<Rightarrow> cell \<Rightarrow> pyval list \<Rightarrow> bool" where
  "elem_isin Q t x vs =
     (if plain_cell t x \<and> list_all (plain_value t) vs then list_ex (\<lambda>w. x = cell_of w) vs
      else coerced_isin Q t x vs)"

text \<open>The test of one entry on one cell: \<^verbatim>\<open>isin\<close> for a list, \<^verbatim>\<open>==\<close> otherwise.\<close>

fun matches :: "compare_lib \<Rightarrow> dtype \<Rightarrow> fval \<Rightarrow> cell \<Rightarrow> bool" where
  "matches Q t (Values vs) x = elem_isin Q t x vs"
| "matches Q t (Scalar s) x = elem_eq Q t x s"

text \<open>Boolean indexing \<^verbatim>\<open>df[mask]\<close>: the rows whose flag is set, in order, dtypes kept.\<close>

definition select :: "bool list \<Rightarrow> 'a list \<Rightarrow> 'a list" where
  "select bs xs = map snd (filter fst (zip bs xs))"

definition select_rows :: "bool list \<Rightarrow> dataframe \<Rightarrow> dataframe" where
  "select_rows bs df =
     df\<lparr>nrows := length (filter (\<lambda>b. b) bs),
        columns := map (\<lambda>nc. (fst nc, Column (dtype (snd nc)) (select bs (cells (snd nc)))))
                     (columns df)\<rparr>"

text \<open>
  One pass of the loop of \<^verbatim>\<open>filter_data\<close>: the entry restricts the frame when its
  column is present and its value is truthy, by membership for a list and by equality
  otherwise.
\<close>

definition filter_step :: "compare_lib \<Rightarrow> dataframe \<Rightarrow> string \<times> fval \<Rightarrow> dataframe" where
  "filter_step Q df f =
     (case get_column df (fst f) of
        Some c \<Rightarrow>
          if truthy (snd f) then select_rows (map (matches Q (dtype c) (snd f)) (cells c)) df
          else df
      | None \<Rightarrow> df)"

fun filter_data :: "compare_lib \<Rightarrow> dataframe \<Rightarrow> (string \<times> fval) list \<Rightarrow> dataframe" where
  "filter_data Q df [] = df"
| "filter_data Q df (f # fs) = filter_data Q (filter_step Q df f) fs"

text \<open>
  The rows of a frame, each row the list of its (column name, cell) pairs in column order.
  A filter entry is active when it restricts the frame; a row satisfies an entry when its
  cell in the entry's column passes the entry's test.
\<close>

fun rows_of_columns :: "nat \<Rightarrow> (string \<times> column) list \<Rightarrow> (string \<times> cell) list list" where
  "rows_of_columns n [] = replicate n []"
| "rows_of_columns n (nc # cs) =
     map (\<lambda>vr. (fst nc, fst vr) # snd vr) (zip (cells (snd nc)) (rows_of_columns n cs))"

definition rows_of :: "dataframe \<Rightarrow> (string \<times> cell) list list" where
  "rows_of df = rows_of_columns (nrows df) (columns df)"

definition active :: "dataframe \<Rightarrow> string \<times> fval \<Rightarrow> bool" where
  "active df f \<longleftrightarrow> has_column df (fst f) \<and> truthy (snd f)"

definition row_satisfies ::
  "compare_lib \<Rightarrow> dataframe \<Rightarrow> string \<times> fval \<Rightarrow> (string \<times> cell) list \<Rightarrow> bool" where
  "row_satisfies Q df f r \<longleftrightarrow>
     (case get_column df (fst f) of
        None \<Rightarrow> False
      | Some c \<Rightarrow>
          (case map_of r (fst f) of Some x \<Rightarrow> matches Q (dtype c) (snd f) x | None \<Rightarrow> False))"

text \<open>
  The frames and Filter Specs in which every comparison is direct: the cells are of the
  kind of their column, and the values of an entry are of the kind of its column.
\<close>

definition plain_frame :: "dataframe \<Rightarrow> bool" where
  "plain_frame df \<longleftrightarrow>
     list_all (\<lambda>nc. list_all (plain_cell (dtype (snd nc))) (cells (snd nc))) (columns df)"

definition plain_entry :: "dataframe \<Rightarrow> string \<times> fval \<Rightarrow> bool" where
  "plain_entry df f \<longleftrightarrow>
     (case get_column df (fst f) of
        None \<Rightarrow> True
      | Some c \<Rightarrow>
          (case snd f of
             Scalar s \<Rightarrow> (if truthy (Scalar s) then plain_value (dtype c) s else True)
           | Values vs \<Rightarrow> list_all (plain_value (dtype c)) vs))"

definition plain_spec :: "dataframe \<Rightarrow> (string \<times> fval) list \<Rightarrow> bool" where
  "plain_spec df fs \<longleftrightarrow> list_all (plain_entry df) fs"

text \<open>
  A frame and a Filter Spec with a list, a text scalar, a numeric scalar, two falsy
  values, an empty list and an absent column; and an instance of the parameters.
\<close>

definition filter_frame :: dataframe where
  "filter_frame =
     \<lparr>nrows = 4,
      columns = [(''A'', Column Int64 [Num 1, Num 2, Num 3, Num 1]),
                 (''B'', Column Object [Str ''x'', Str ''y'', Str ''x'', Str ''x'']),
                 (''C'', Column Float64 [Num 5, Num 5, Num 0, Null]),
                 (''D'', Column Float64 [Num 0, Num 1, Num 2, Num 3]),
                 (''E'', Column Bool [Flag True, Flag False, Flag True, Flag False])]\<rparr>"

definition filter_spec :: "(string \<times> fval) list" where
  "filter_spec =
     [(''A'', Values [PNum 1, PNum 2]), (''B'', Scalar (PStr ''x'')),
      (''C'', Scalar (PNum 5)), (''D'', Scalar (PNum 0)), (''E'', Values []),
      (''Y'', Scalar PNone), (''Z'', Scalar (PNum 7))]"

definition no_coercion :: compare_lib where
  "no_coercion = \<lparr>coerced_eq = (\<lambda>t x w. False), coerced_isin = (\<lambda>t x vs. False)\<rparr>"

section \<open>Merger\<close>

text \<open>
  \<^verbatim>\<open>pd.concat(dfs, ignore_index=True)\<close> stacks the frames: the columns of the result are
  the column names of the frames in order of first appearance; a column of the result
  holds, frame after frame, the frame's cells of that name, or one missing cell per row
  of the frame when the frame has no such column. The index is renumbered.

  The dtype of a stacked column and the conversion of a part of another dtype to it
  are decided inside pandas (a flag stacked on integers becomes 0 or 1, an integer
  widened to floating point is rounded beyond \<open>2\<^sup>5\<^sup>3\<close>, a part without rows may not
  count). They are parameters of the model:
  \<^item> \<open>result_dtype\<close>: the dtype of the stacked column, given for every frame in order its
    row count and the dtype of its part, \<open>None\<close> for a frame without the column;
  \<^item> \<open>cast_cell\<close>: the conversion of one cell of a part from the part's dtype to the
    dtype of the stacked column.
  A part that has the dtype of the stacked column is not converted.
\<close>

record concat_lib =
  result_dtype :: "(dtype option \<times> nat) list \<Rightarrow> dtype"
  cast_cell :: "dtype \<Rightarrow> dtype \<Rightarrow> cell \<Rightarrow> cell"

definition concat_names :: "dataframe list \<Rightarrow> string list" where
  "concat_names dfs = rev (remdups (rev (concat (map (\<lambda>df. map fst (columns df)) dfs))))"

definition concat_dtype :: "concat_lib \<Rightarrow> dataframe list \<Rightarrow> string \<Rightarrow> dtype" where
  "concat_dtype P dfs n =
     result_dtype P (map (\<lambda>df. (map_option dtype (get_column df n), nrows df)) dfs)"

definition concat_part :: "concat_lib \<Rightarrow> dtype \<Rightarrow> string \<Rightarrow> dataframe \<Rightarrow> cell list" where
  "concat_part P t n df =
     (case get_column df n of
        Some c \<Rightarrow> if dtype c = t then cells c else map (cast_cell P (dtype c) t) (cells c)
      | None \<Rightarrow> replicate (nrows df) Null)"

definition concat_cells :: "concat_lib \<Rightarrow> dataframe list \<Rightarrow> string \<Rightarrow> cell list" where
  "concat_cells P dfs n = concat (map (concat_part P (concat_dtype P dfs n) n) dfs)"

definition pd_concat :: "concat_lib \<Rightarrow> dataframe list \<Rightarrow> dataframe" where
  "pd_concat P dfs =
     \<lparr>nrows = sum_list (map nrows dfs),
      columns = map (\<lambda>n. (n, Column (concat_dtype P dfs n) (concat_cells P dfs n)))
                  (concat_names dfs)\<rparr>"

text \<open>\<^verbatim>\<open>merge_dataframes\<close>: an empty frame for an empty list, else the stacked frames.\<close>

definition merge_dataframes :: "concat_lib \<Rightarrow> dataframe list \<Rightarrow> dataframe" where
  "merge_dataframes P dfs =
     (if dfs = [] then \<lparr>nrows = 0, columns = []\<rparr> else pd_concat P dfs)"

subsection \<open>An instance of the parameters, for evaluating examples\<close>

text \<open>
  The stacked dtype is the dtype the parts share; integer for flags with integers,
  floating point for integers with floating point, object for any other mix; where a
  frame lacks the column, integer becomes floating point and flag becomes object. A flag
  converted to a number is 0 or 1; the integers of the examples are small, and are
  converted to floating point as they are.
\<close>

definition stacked_dtype :: "(dtype option \<times> nat) list \<Rightarrow> dtype" where
  "stacked_dtype parts =
     (let ts = concat (map (\<lambda>p. case fst p of Some t \<Rightarrow> [t] | None \<Rightarrow> []) parts);
          t = (case remdups ts of
                 [] \<Rightarrow> Object
               | [t] \<Rightarrow> t
               | _ \<Rightarrow> if list_all (\<lambda>t. t = Bool \<or> t = Int64) ts then Int64
                      else if list_all (\<lambda>t. t = Int64 \<or> t = Float64) ts then Float64
                      else Object)
      in if list_all (\<lambda>p. fst p \<noteq> None) parts then t
         else if t = Int64 then Float64
         else if t = Bool then Object
         else t)"

definition stacked_cell :: "dtype \<Rightarrow> dtype \<Rightarrow> cell \<Rightarrow> cell" where
  "stacked_cell t t' v =
     (case v of
        Flag b \<Rightarrow> if t' = Int64 \<or> t' = Float64 then Num (if b then 1 else 0) else v
      | _ \<Rightarrow> v)"

definition concat_rules :: concat_lib where
  "concat_rules = \<lparr>result_dtype = stacked_dtype, cast_cell = stacked_cell\<rparr>"

text \<open>Three cleaned sources; the first and the third have no column in common.\<close>

definition source_a :: dataframe where
  "source_a = \<lparr>nrows = 2, columns = [(''A'', Column Float64 [Num 1, Num 0])]\<rparr>"

definition source_b :: dataframe where
  "source_b =
     \<lparr>nrows = 1, columns = [(''B'', Column Object [Str ''x'']), (''A'', Column Float64 [Num 3])]\<rparr>"

definition source_c :: dataframe where
  "source_c = \<lparr>nrows = 1, columns = [(''B'', Column Object [Str []])]\<rparr>"

section \<open>Timestamp Synthesizer\<close>

text \<open>
  \<^verbatim>\<open>create_timestamp\<close> calls three conversions of pandas that are not part of this
  module; they are parameters of the model. A timestamp cell \<open>Stamp t\<close> holds the
  nanoseconds since the epoch.
  \<^item> \<open>py_str\<close>: the text \<^verbatim>\<open>astype(str)\<close> gives for one cell;
  \<^item> \<open>strftime_ymd\<close>: \<^verbatim>\<open>strftime('%Y-%m-%d')\<close> of a timestamp;
  \<^item> \<open>parse_datetime\<close>: the parser of \<^verbatim>\<open>pd.to_datetime\<close> for one text, which may
    depend on the texts of the whole column (format inference); \<open>None\<close> when the text
    does not parse.
\<close>

record lib =
  py_str :: "cell \<Rightarrow> string"
  strftime_ymd :: "int \<Rightarrow> string"
  parse_datetime :: "string list \<Rightarrow> string \<Rightarrow> int option"

text \<open>\<^verbatim>\<open>df[name] = column\<close>: replaces the column of that name, or appends a new one.\<close>

fun assign :: "string \<Rightarrow> column \<Rightarrow> (string \<times> column) list \<Rightarrow> (string \<times> column) list" where
  "assign n c [] = [(n, c)]"
| "assign n c (p # ps) = (if fst p = n then (n, c) # ps else p # assign n c ps)"

definition set_column :: "dataframe \<Rightarrow> string \<Rightarrow> column \<Rightarrow> dataframe" where
  "set_column df n c = df\<lparr>columns := assign n c (columns df)\<rparr>"

text \<open>\<^verbatim>\<open>Series.astype(str)\<close>: an object column of the texts of the cells.\<close>

definition astype_str :: "lib \<Rightarrow> column \<Rightarrow> column" where
  "astype_str L c = Column Object (map (\<lambda>v. Str (py_str L v)) (cells c))"

text \<open>
  \<^verbatim>\<open>Series.dt.strftime('%Y-%m-%d')\<close>: the \<^verbatim>\<open>.dt\<close> accessor raises AttributeError on a
  column that is not of datetime dtype; a missing date stays missing.
\<close>

definition dt_strftime :: "lib \<Rightarrow> column \<Rightarrow> error + column" where
  "dt_strftime L c =
     (if dtype c = Datetime64
      then Inr (Column Object
             (map (\<lambda>v. case v of Stamp t \<Rightarrow> Str (strftime_ymd L t) | _ \<Rightarrow> Null) (cells c)))
      else Inl AttributeError)"

text \<open>\<^verbatim>\<open>date + ' ' + time\<close> on two cells: a missing operand gives a missing result.\<close>

fun combine :: "cell \<Rightarrow> cell \<Rightarrow> cell" where
  "combine (Str d) (Str t) = Str (d @ '' '' @ t)"
| "combine d t = Null"

text \<open>
  \<^verbatim>\<open>pd.to_datetime(texts, errors='coerce')\<close>: a datetime column with the parsed
  timestamp of every text, and a missing cell where the text is missing or does not parse.
\<close>

definition to_datetime_coerce :: "lib \<Rightarrow> cell list \<Rightarrow> column" where
  "to_datetime_coerce L xs =
     (let texts = concat (map (\<lambda>v. case v of Str s \<Rightarrow> [s] | _ \<Rightarrow> []) xs)
      in Column Datetime64
           (map (\<lambda>v. case v of
                       Str s \<Rightarrow> (case parse_datetime L texts s of Some t \<Rightarrow> Stamp t | None \<Rightarrow> Null)
                     | _ \<Rightarrow> Null) xs))"

text \<open>
  \<^verbatim>\<open>create_timestamp\<close>. The TIME column is assigned first, then DATE is formatted
  (which may raise), then TIMESTAMP is assigned.
\<close>

definition create_timestamp :: "lib \<Rightarrow> dataframe \<Rightarrow> error + dataframe" where
  "create_timestamp L df =
     (if has_column df ''DATE'' \<and> has_column df ''TIME'' then
        (case get_column df ''TIME'' of
           None \<Rightarrow> Inl (KeyError ''TIME'')
         | Some tc \<Rightarrow>
             let df1 = set_column df ''TIME'' (astype_str L tc)
             in (case get_column df1 ''DATE'' of
                   None \<Rightarrow> Inl (KeyError ''DATE'')
                 | Some dc \<Rightarrow>
                     (case dt_strftime L dc of
                        Inl e \<Rightarrow> Inl e
                      | Inr ds \<Rightarrow>
                          (case get_column df1 ''TIME'' of
                             None \<Rightarrow> Inl (KeyError ''TIME'')
                           | Some ts \<Rightarrow>
                               Inr (set_column df1 ''TIMESTAMP''
                                      (to_datetime_coerce L
                                         (map (\<lambda>dt. combine (fst dt) (snd dt))
                                            (zip (cells ds) (cells ts)))))))))
      else Inr df)"

text \<open>
  What the claims say about one row: the combined text of a date and a time, and the
  timestamp cell parsed from it.
\<close>

definition combined_text :: "lib \<Rightarrow> cell \<Rightarrow> cell \<Rightarrow> string option" where
  "combined_text L d t =
     (case d of Stamp x \<Rightarrow> Some (strftime_ymd L x @ '' '' @ py_str L t) | _ \<Rightarrow> None)"

definition parsed_cell :: "lib \<Rightarrow> string list \<Rightarrow> string option \<Rightarrow> cell" where
  "parsed_cell L texts s =
     (case s of
        None \<Rightarrow> Null
      | Some x \<Rightarrow> (case parse_datetime L texts x of Some t \<Rightarrow> Stamp t | None \<Rightarrow> Null))"

definition column_texts :: "lib \<Rightarrow> cell list \<Rightarrow> cell list \<Rightarrow> string list" where
  "column_texts L ds ts =
     concat (map (\<lambda>dt. case combined_text L (fst dt) (snd dt) of Some s \<Rightarrow> [s] | None \<Rightarrow> [])
               (zip ds ts))"

subsection \<open>An instance of the conversions, for evaluating examples\<close>

text \<open>
  Dates are formatted by the proleptic Gregorian calendar; the parser accepts the one
  format \<^verbatim>\<open>YYYY-MM-DD HH:MM:SS\<close>; the text of a text cell is the cell, that of a
  missing cell is \<^verbatim>\<open>nan\<close>. Cells of other kinds do not occur in the examples.
\<close>

definition ns_per_day :: int where
  "ns_per_day = 86400000000000"

definition days_from_civil :: "int \<Rightarrow> int \<Rightarrow> int \<Rightarrow> int" where
  "days_from_civil y m d =
     (let y1 = (if m \<le> 2 then y - 1 else y);
          era = y1 div 400;
          yoe = y1 - era * 400;
          doy = (153 * (if m > 2 then m - 3 else m + 9) + 2) div 5 + d - 1;
          doe = yoe * 365 + yoe div 4 - yoe div 100 + doy
      in era * 146097 + doe - 719468)"

definition civil_from_days :: "int \<Rightarrow> int \<times> int \<times> int" where
  "civil_from_days z =
     (let z1 = z + 719468;
          era = z1 div 146097;
          doe = z1 - era * 146097;
          yoe = (doe - doe div 1460 + doe div 36524 - doe div 146096) div 365;
          doy = doe - (365 * yoe + yoe div 4 - yoe div 100);
          mp = (5 * doy + 2) div 153;
          d = doy - (153 * mp + 2) div 5 + 1;
          m = (if mp < 10 then mp + 3 else mp - 9)
      in (yoe + era * 400 + (if m \<le> 2 then 1 else 0), m, d))"

definition digit_char :: "int \<Rightarrow> char" where
  "digit_char k = ''0123456789'' ! nat (k mod 10)"

definition digit_of :: "char \<Rightarrow> int option" where
  "digit_of c =
     map_of [(CHR ''0'', 0), (CHR ''1'', 1), (CHR ''2'', 2), (CHR ''3'', 3), (CHR ''4'', 4),
             (CHR ''5'', 5), (CHR ''6'', 6), (CHR ''7'', 7), (CHR ''8'', 8), (CHR ''9'', 9)] c"

fun number_of :: "int \<Rightarrow> string \<Rightarrow> int option" where
  "number_of acc [] = Some acc"
| "number_of acc (c # cs) =
     (case digit_of c of None \<Rightarrow> None | Some d \<Rightarrow> number_of (10 * acc + d) cs)"

definition iso_date :: "int \<Rightarrow> string" where
  "iso_date t =
     (case civil_from_days (t div ns_per_day) of
        (y, m, d) \<Rightarrow>
          [digit_char (y div 1000), digit_char (y div 100), digit_char (y div 10), digit_char y,
           CHR ''-'', digit_char (m div 10), digit_char m,
           CHR ''-'', digit_char (d div 10), digit_char d])"

definition parse_iso :: "string \<Rightarrow> int option" where
  "parse_iso s =
     (if length s = 19 \<and> s ! 4 = CHR ''-'' \<and> s ! 7 = CHR ''-'' \<and> s ! 10 = CHR '' '' \<and>
         s ! 13 = CHR '':'' \<and> s ! 16 = CHR '':''
      then
        (case (number_of 0 (take 4 s), number_of 0 (take 2 (drop 5 s)),
               number_of 0 (take 2 (drop 8 s)), number_of 0 (take 2 (drop 11 s)),
               number_of 0 (take 2 (drop 14 s)), number_of 0 (take 2 (drop 17 s))) of
           (Some y, Some m, Some d, Some hh, Some mm, Some ss) \<Rightarrow>
             if civil_from_days (days_from_civil y m d) = (y, m, d) \<and> hh < 24 \<and> mm < 60 \<and> ss < 60
             then Some ((days_from_civil y m d * 86400 + hh * 3600 + mm * 60 + ss) * 1000000000)
             else None
         | _ \<Rightarrow> None)
      else None)"

definition iso_lib :: lib where
  "iso_lib =
     \<lparr>py_str = (\<lambda>v. case v of Str s \<Rightarrow> s | _ \<Rightarrow> ''nan''),
      strftime_ymd = iso_date,
      parse_datetime = (\<lambda>texts. parse_iso)\<rparr>"

text \<open>
  Three frames: dates of datetime dtype, one of them missing, with one time missing; the
  same with the dates held as text; and the expected result for the first.
\<close>

definition stamp_frame :: dataframe where
  "stamp_frame =
     \<lparr>nrows = 3,
      columns = [(''DATE'', Column Datetime64
                    [Stamp 1704067200000000000, Stamp 1704067200000000000, Null]),
                 (''TIME'', Column Object [Str ''08:00:00'', Null, Str ''09:30:00'']),
                 (''TEMP'', Column Float64 [Num 10, Num 20, Num 30])]\<rparr>"

definition text_date_frame :: dataframe where
  "text_date_frame =
     \<lparr>nrows = 1,
      columns = [(''DATE'', Column Object [Str ''2024-01-01'']),
                 (''TIME'', Column Object [Str ''08:00:00''])]\<rparr>"

definition stamp_frame_result :: dataframe where
  "stamp_frame_result =
     \<lparr>nrows = 3,
      columns = [(''DATE'', Column Datetime64
                    [Stamp 1704067200000000000, Stamp 1704067200000000000, Null]),
                 (''TIME'', Column Object [Str ''08:00:00'', Str ''nan'', Str ''09:30:00'']),
                 (''TEMP'', Column Float64 [Num 10, Num 20, Num 30]),
                 (''TIMESTAMP'', Column Datetime64 [Stamp 1704096000000000000, Null, Null])]\<rparr>"

section \<open>Correlation matrix\<close>

text \<open>
  \<^verbatim>\<open>df[columns]\<close> with a list of names: KeyError when a name is not a column of the
  frame, else the frame of these columns in the order of the list, a name that is
  repeated in the list giving a repeated column.
\<close>

definition select_columns :: "dataframe \<Rightarrow> string list \<Rightarrow> error + dataframe" where
  "select_columns df cols =
     (case find (\<lambda>n. \<not> has_column df n) cols of
        Some n \<Rightarrow> Inl (KeyError n)
      | None \<Rightarrow>
          Inr (df\<lparr>columns := concat (map (\<lambda>n. case get_column df n of
                                                   Some c \<Rightarrow> [(n, c)] | None \<Rightarrow> []) cols)\<rparr>))"

text \<open>\<^verbatim>\<open>select_dtypes(include=['float64', 'int64'])\<close> and \<^verbatim>\<open>DataFrame.empty\<close>.\<close>

definition select_dtypes_numeric :: "dataframe \<Rightarrow> dataframe" where
  "select_dtypes_numeric df =
     df\<lparr>columns := filter (\<lambda>nc. is_numeric (dtype (snd nc))) (columns df)\<rparr>"

definition is_empty :: "dataframe \<Rightarrow> bool" where
  "is_empty df \<longleftrightarrow> nrows df = 0 \<or> columns df = []"

text \<open>
  A Python dict, as the list of its items: assigning to a key that is there replaces its
  value in place, assigning to a new key appends an item.
\<close>

fun dict_set :: "'k \<Rightarrow> 'v \<Rightarrow> ('k \<times> 'v) list \<Rightarrow> ('k \<times> 'v) list" where
  "dict_set k v [] = [(k, v)]"
| "dict_set k v (p # ps) = (if fst p = k then (k, v) # ps else p # dict_set k v ps)"

definition dict_of :: "('k \<times> 'v) list \<Rightarrow> ('k \<times> 'v) list" where
  "dict_of items = foldl (\<lambda>d kv. dict_set (fst kv) (snd kv) d) [] items"

text \<open>
  \<^verbatim>\<open>DataFrame.corr().round(2)\<close>. The coefficient of two columns is computed by pandas
  in float64 and then rounded; it is a parameter of the model, \<open>coef\<close>, with \<open>None\<close> for
  NaN. pandas computes it once for every pair of columns, with the column that comes
  later in the frame as the first argument, and stores it in both places of the matrix.
  The matrix is given column by column, each column a list of (row label, coefficient).
\<close>

definition indexed :: "'a list \<Rightarrow> (nat \<times> 'a) list" where
  "indexed xs = zip [0..<length xs] xs"

definition corr_column ::
  "(cell list \<Rightarrow> cell list \<Rightarrow> real option) \<Rightarrow> (string \<times> column) list \<Rightarrow>
   nat \<times> string \<times> column \<Rightarrow> (string \<times> real option) list" where
  "corr_column coef cols jc =
     map (\<lambda>ic. (fst (snd ic),
            if fst ic \<le> fst jc then coef (cells (snd (snd jc))) (cells (snd (snd ic)))
            else coef (cells (snd (snd ic))) (cells (snd (snd jc)))))
       (indexed cols)"

text \<open>
  The final loop of \<^verbatim>\<open>get_correlation_data\<close> stores \<^verbatim>\<open>corr_matrix[col].to_dict()\<close> for
  every column label. For a label that one column has, \<^verbatim>\<open>corr_matrix[col]\<close> is that
  column and its dict maps row labels to coefficients. For a label that several columns
  have, \<^verbatim>\<open>corr_matrix[col]\<close> is the frame of these columns and its dict maps the label
  to a dict from row label to coefficient.
\<close>

datatype corr_value =
  Row "(string \<times> real option) list"
| Frame "(string \<times> (string \<times> real option) list) list"

definition to_dict_of ::
  "(cell list \<Rightarrow> cell list \<Rightarrow> real option) \<Rightarrow> (string \<times> column) list \<Rightarrow> string \<Rightarrow> corr_value" where
  "to_dict_of coef cols label =
     (case filter (\<lambda>jc. fst (snd jc) = label) (indexed cols) of
        [jc] \<Rightarrow> Row (dict_of (corr_column coef cols jc))
      | jcs \<Rightarrow> Frame (dict_of (map (\<lambda>jc. (label, dict_of (corr_column coef cols jc))) jcs)))"

definition corr_data ::
  "(cell list \<Rightarrow> cell list \<Rightarrow> real option) \<Rightarrow> dataframe \<Rightarrow> (string \<times> corr_value) list" where
  "corr_data coef df =
     dict_of (map (\<lambda>nc. (fst nc, to_dict_of coef (columns df) (fst nc))) (columns df))"

text \<open>\<^verbatim>\<open>get_correlation_data\<close>.\<close>

definition get_correlation_data ::
  "(cell list \<Rightarrow> cell list \<Rightarrow> real option) \<Rightarrow> dataframe \<Rightarrow> string list \<Rightarrow>
   error + (string \<times> corr_value) list" where
  "get_correlation_data coef df cols =
     (case select_columns df cols of
        Inl e \<Rightarrow> Inl e
      | Inr sub \<Rightarrow>
          let numeric_df = select_dtypes_numeric sub
          in if is_empty numeric_df then Inr [] else Inr (corr_data coef numeric_df))"

text \<open>
  The notions of the claims: the candidate columns that are numeric in the frame, the
  cells of a column, and an entry of the result (which is there when the result maps the
  first label to a dict of coefficients that has the second label).
\<close>

definition retained :: "dataframe \<Rightarrow> string list \<Rightarrow> string list" where
  "retained df cols =
     filter (\<lambda>n. case get_column df n of Some c \<Rightarrow> is_numeric (dtype c) | None \<Rightarrow> False) cols"

definition column_cells :: "dataframe \<Rightarrow> string \<Rightarrow> cell list" where
  "column_cells df n = (case get_column df n of Some c \<Rightarrow> cells c | None \<Rightarrow> [])"


subsection \<open>The coefficient in exact arithmetic, for evaluating examples\<close>

text \<open>
  The Pearson coefficient over the rows in which both columns hold a number: the sum of
  the products of the deviations from the means, divided by the root of the product of
  the two sums of squared deviations, and NaN when no such row exists or the divisor is
  zero; then rounded to the nearest multiple of 0.01, a tie to the even one. This is what
  pandas computes where float64 neither rounds nor overflows.
\<close>

definition complete_pairs :: "cell list \<Rightarrow> cell list \<Rightarrow> (real \<times> real) list" where
  "complete_pairs xs ys =
     concat (map (\<lambda>p. case p of (Num x, Num y) \<Rightarrow> [(x, y)] | _ \<Rightarrow> []) (zip xs ys))"

definition mean :: "real list \<Rightarrow> real" where
  "mean zs = sum_list zs / real (length zs)"

definition pearson :: "cell list \<Rightarrow> cell list \<Rightarrow> real option" where
  "pearson xs ys =
     (let ps = complete_pairs xs ys in
      if ps = [] then None
      else
        let mx = mean (map fst ps);
            my = mean (map snd ps);
            cov = sum_list (map (\<lambda>p. (fst p - mx) * (snd p - my)) ps);
            ssx = sum_list (map (\<lambda>p. (fst p - mx)\<^sup>2) ps);
            ssy = sum_list (map (\<lambda>p. (snd p - my)\<^sup>2) ps);
            d = sqrt (ssx * ssy)
        in if d = 0 then None else Some (cov / d))"

definition round_half_even :: "real \<Rightarrow> int" where
  "round_half_even x =
     (let f = \<lfloor>x\<rfloor>; r = x - of_int f
      in if r < 1 / 2 then f else if r > 1 / 2 then f + 1 else if even f then f else f + 1)"

definition round2 :: "real \<Rightarrow> real" where
  "round2 x = of_int (round_half_even (x * 100)) / 100"

definition exact_coef :: "cell list \<Rightarrow> cell list \<Rightarrow> real option" where
  "exact_coef xs ys = map_option round2 (pearson xs ys)"



text \<open>Frames for the examples: text only; numeric without rows; numeric with rows.\<close>

definition text_frame :: dataframe where
  "text_frame = \<lparr>nrows = 2, columns = [(''A'', Column Object [Str ''x'', Str ''y''])]\<rparr>"



section \<open>Time-series extraction\<close>

text \<open>
  \<^verbatim>\<open>get_time_series_data\<close> returns a dict from group to the two aligned lists
  \<^verbatim>\<open>timestamps\<close> and \<^verbatim>\<open>values\<close>; it is modelled as a map. A mean is a cell: a number,
  or \<open>Null\<close> for NaN.
\<close>

type_synonym series = "string list \<times> cell list"

text \<open>
  Three things are decided inside pandas and are parameters of the model:
  \<^item> \<open>binning_all_nat\<close>: what the day grouper does with a key column that has rows and
    not one valid timestamp. It takes the first and the last timestamp of the column to
    lay out the day bins; pandas 1.5 to 2.3 raise AttributeError there (\<open>Some\<close> of the
    error), another version may return without any bin (\<open>None\<close>);
  \<^item> \<open>mean_error\<close>: the error that \<^verbatim>\<open>mean()\<close> raises for a column of a dtype that has
    no mean, if any;
  \<^item> \<open>mean_of\<close>: the mean of the values of one group of a column of the given dtype, as
    pandas computes it in floating point, skipping missing values.
\<close>

record groupby_lib =
  binning_all_nat :: "error option"
  mean_error :: "dtype \<Rightarrow> error option"
  mean_of :: "dtype \<Rightarrow> cell list \<Rightarrow> cell"

text \<open>The calendar day of a timestamp, as a day number, and the text of a day.\<close>

definition day_of :: "cell \<Rightarrow> int" where
  "day_of v = (case v of Stamp t \<Rightarrow> t div ns_per_day | _ \<Rightarrow> 0)"

definition day_label :: "lib \<Rightarrow> int \<Rightarrow> string" where
  "day_label L d = strftime_ymd L (d * ns_per_day)"

text \<open>
  \<^verbatim>\<open>groupby\<close> leaves out every row whose key is missing (a NaT timestamp, a missing
  group value). The rows that take part, each with the day of its timestamp:
\<close>

definition keyed_rows :: "cell list \<Rightarrow> 'a list \<Rightarrow> (int \<times> 'a) list" where
  "keyed_rows ts xs =
     map (\<lambda>p. (day_of (fst p), snd p)) (filter (\<lambda>p. \<not> isna (fst p)) (zip ts xs))"

definition day_mean :: "groupby_lib \<Rightarrow> dtype \<Rightarrow> (int \<times> cell) list \<Rightarrow> int \<Rightarrow> cell" where
  "day_mean G t rows d = mean_of G t (map snd (filter (\<lambda>r. fst r = d) rows))"

text \<open>
  Grouping by \<^verbatim>\<open>pd.Grouper(key='TIMESTAMP', freq='D')\<close> alone gives one bin for every
  day from the first to the last day that has a row, with the mean of no values for a
  day without rows.
\<close>

definition all_means :: "lib \<Rightarrow> groupby_lib \<Rightarrow> dtype \<Rightarrow> cell list \<Rightarrow> cell list \<Rightarrow> series" where
  "all_means L G t ts vs =
     (let rows = keyed_rows ts vs;
          sorted_days = sort (map fst rows);
          days = (if rows = [] then [] else [hd sorted_days..last sorted_days])
      in (map (day_label L) days, map (day_mean G t rows) days))"

text \<open>
  Grouping by the day and by a second column gives one mean for every pair of day and
  group value that has a row. For each group value the loop of the source collects its
  days, which are in ascending order, and its means.
\<close>

definition grouped_means ::
  "lib \<Rightarrow> groupby_lib \<Rightarrow> dtype \<Rightarrow> cell list \<Rightarrow> cell list \<Rightarrow> cell list \<Rightarrow> (cell \<rightharpoonup> series)" where
  "grouped_means L G t ts gs vs =
     (let rows = filter (\<lambda>r. \<not> isna (fst (snd r))) (keyed_rows ts (zip gs vs))
      in (\<lambda>g.
            let rows_g = map (\<lambda>r. (fst r, snd (snd r))) (filter (\<lambda>r. fst (snd r) = g) rows);
                days = sort (remdups (map fst rows_g))
            in if rows_g = [] then None
               else Some (map (day_label L) days, map (day_mean G t rows_g) days)))"

text \<open>
  \<^verbatim>\<open>get_time_series_data\<close>. Without a TIMESTAMP or without the target column the
  result is the empty dict. The day grouper raises TypeError on a TIMESTAMP column that
  is not of datetime dtype, and is a parameter on a column of datetime dtype that has
  rows and no valid timestamp. \<^verbatim>\<open>reset_index\<close> raises ValueError when the grouping
  column is the TIMESTAMP or the target column, whose name is taken already. The source
  catches none of these errors.
\<close>

definition get_time_series_data ::
  "lib \<Rightarrow> groupby_lib \<Rightarrow> dataframe \<Rightarrow> string \<Rightarrow> string \<Rightarrow> error + (cell \<rightharpoonup> series)" where
  "get_time_series_data L G df column group_by =
     (case (get_column df ''TIMESTAMP'', get_column df column) of
        (Some tc, Some vc) \<Rightarrow>
          if dtype tc \<noteq> Datetime64 then Inl TypeError
          else
            (case (if cells tc \<noteq> [] \<and> list_all isna (cells tc)
                   then binning_all_nat G else None) of
               Some e \<Rightarrow> Inl e
             | None \<Rightarrow>
                 (case mean_error G (dtype vc) of
                    Some e \<Rightarrow> Inl e
                  | None \<Rightarrow>
                      (case get_column df group_by of
                         Some gc \<Rightarrow>
                           if group_by = ''TIMESTAMP'' \<or> group_by = column then Inl ValueError
                           else Inr (grouped_means L G (dtype vc)
                                       (cells tc) (cells gc) (cells vc))
                       | None \<Rightarrow>
                           Inr [Str ''all'' \<mapsto>
                                  all_means L G (dtype vc) (cells tc) (cells vc)])))
      | _ \<Rightarrow> Inr Map.empty)"

text \<open>The frame without the rows whose TIMESTAMP is missing.\<close>

definition drop_null_timestamps :: "dataframe \<Rightarrow> dataframe" where
  "drop_null_timestamps df =
     (case get_column df ''TIMESTAMP'' of
        Some tc \<Rightarrow> select_rows (map (\<lambda>v. \<not> isna v) (cells tc)) df
      | None \<Rightarrow> df)"

subsection \<open>An instance of the parameters, for evaluating examples\<close>

text \<open>
  The behaviour of pandas 1.5 to 2.3 for target columns of numbers and flags:
  AttributeError from the day grouper on a column of missing timestamps only, TypeError
  from the mean of an object column, and the mean of the numbers of a group in exact
  arithmetic, a flag counting as 0 or 1 and a group without a number giving NaN.
\<close>

definition exact_mean :: "dtype \<Rightarrow> cell list \<Rightarrow> cell" where
  "exact_mean t vs =
     (let xs = concat (map (\<lambda>v. case v of
                                   Num x \<Rightarrow> [x]
                                 | Flag b \<Rightarrow> [if b then 1 else 0]
                                 | _ \<Rightarrow> []) vs)
      in if xs = [] then Null else Num (mean xs))"

definition pandas2 :: groupby_lib where
  "pandas2 =
     \<lparr>binning_all_nat = Some AttributeError,
      mean_error = (\<lambda>t. if t = Object then Some TypeError else None),
      mean_of = exact_mean\<rparr>"

text \<open>
  Frames for the examples: two readings of vessel A on one day and one reading without
  a timestamp; and a frame none of whose rows has a timestamp.
\<close>

definition series_frame :: dataframe where
  "series_frame =
     \<lparr>nrows = 3,
      columns = [(''TIMESTAMP'', Column Datetime64
                    [Stamp 1704096000000000000, Null, Stamp 1704099600000000000]),
                 (''VESSEL_NAME'', Column Object [Str ''A'', Str ''A'', Str ''A'']),
                 (''TEMP'', Column Float64 [Num 10, Num 500, Num 20])]\<rparr>"

definition no_stamp_frame :: dataframe where
  "no_stamp_frame =
     \<lparr>nrows = 1,
      columns = [(''TIMESTAMP'', Column Datetime64 [Null]),
                 (''VESSEL_NAME'', Column Object [Str ''A'']),
                 (''TEMP'', Column Float64 [Num 10])]\<rparr>"

section \<open>Properties of the Cleaner\<close>

lemma map_of_filter_snd:
  "distinct (map fst xs) \<Longrightarrow>
   map_of (filter (\<lambda>nc. P (snd nc)) xs) n =
     (case map_of xs n of None \<Rightarrow> None | Some c \<Rightarrow> if P c then Some c else None)"
proof (induction xs)
  case Nil
  then show ?case by simp
next
  case (Cons a xs)
  obtain k c where a: "a = (k, c)" by (cases a)
  from Cons.prems have nk: "k \<notin> fst ` set xs" and d: "distinct (map fst xs)"
    by (auto simp: a)
  from nk have none: "map_of xs k = None"
    by (simp add: map_of_eq_None_iff)
  show ?case
  proof (cases "n = k")
    case True
    then show ?thesis using none Cons.IH [OF d] by (simp add: a)
  next
    case False
    then show ?thesis using Cons.IH [OF d] by (simp add: a)
  qed
qed

lemma map_of_map_snd:
  "map_of (map (\<lambda>nc. (fst nc, f (snd nc))) xs) n = map_option f (map_of xs n)"
  by (induction xs) auto

lemma get_column_clean_data:
  assumes "wf_df df"
  shows "get_column (clean_data df) n =
     (case get_column df n of None \<Rightarrow> None
      | Some c \<Rightarrow> if list_ex (\<lambda>v. \<not> isna v) (cells c) then Some (clean_column c) else None)"
proof -
  from assms have d: "distinct (map fst (columns df))"
    by (simp add: wf_df_def)
  have f: "map_of (filter (\<lambda>nc. list_ex (\<lambda>v. \<not> isna v) (cells (snd nc))) (columns df)) n =
      (case map_of (columns df) n of None \<Rightarrow> None
       | Some c \<Rightarrow> if list_ex (\<lambda>v. \<not> isna v) (cells c) then Some c else None)"
    by (rule map_of_filter_snd [OF d, of "\<lambda>c. list_ex (\<lambda>v. \<not> isna v) (cells c)"])
  have "get_column (clean_data df) n =
      map_option clean_column
        (map_of (filter (\<lambda>nc. list_ex (\<lambda>v. \<not> isna v) (cells (snd nc))) (columns df)) n)"
    by (simp add: get_column_def clean_data_def dropna_all_def Let_def map_of_map_snd)
  then show ?thesis
    unfolding f by (simp add: get_column_def split: option.splits)
qed

lemma clean_column_datetime: "dtype c = Datetime64 \<Longrightarrow> clean_column c = c"
  by (simp add: clean_column_def fillna_def)

lemma cells_clean_column:
  "dtype c \<noteq> Datetime64 \<Longrightarrow>
   cells (clean_column c) =
     map (\<lambda>v. if isna v then (if is_numeric (dtype c) then Num 0 else Str []) else v) (cells c)"
  by (simp add: clean_column_def fillna_def is_numeric_def)

lemma clean_column_no_null:
  "dtype c \<noteq> Datetime64 \<Longrightarrow> v \<in> set (cells (clean_column c)) \<Longrightarrow> \<not> isna v"
  by (auto simp: cells_clean_column isna_def)

lemma clean_column_clean:
  assumes "\<forall>v \<in> set (cells c). \<not> isna v"
  shows "clean_column c = c"
proof -
  from assms have ne: "\<not> list_ex isna (cells c)"
    by (simp add: list_ex_iff)
  from assms have "map (\<lambda>x. if isna x then w else x) (cells c) = cells c" for w
    by (intro map_idI) simp
  with ne show ?thesis
    by (cases c) (simp add: clean_column_def fillna_def)
qed

lemma clean_column_idem: "clean_column (clean_column c) = clean_column c"
proof (cases "dtype c = Datetime64")
  case True
  then show ?thesis by (simp add: clean_column_datetime)
next
  case False
  then have "\<forall>v \<in> set (cells (clean_column c)). \<not> isna v"
    using clean_column_no_null by blast
  then show ?thesis by (rule clean_column_clean)
qed

lemma clean_column_keeps_value:
  assumes "list_ex (\<lambda>v. \<not> isna v) (cells c)"
  shows "list_ex (\<lambda>v. \<not> isna v) (cells (clean_column c))"
proof (cases "dtype c = Datetime64")
  case True
  with assms show ?thesis by (simp add: clean_column_datetime)
next
  case False
  from assms obtain v where "v \<in> set (cells c)" "\<not> isna v"
    by (auto simp: list_ex_iff)
  then have "v \<in> set (cells (clean_column c))"
    using False by (force simp: cells_clean_column)
  with \<open>\<not> isna v\<close> show ?thesis
    by (auto simp: list_ex_iff)
qed

text \<open>
  What cleaning does to each column of a well-formed frame. A column all of whose values
  were missing is absent; every other column is still there. A column of datetime dtype
  is left as it is, missing dates included. Any other column holds no missing value
  afterwards: zero where a value was missing if its kind is numeric, the empty string if
  not, and every value that was not missing as it was. No column is added and the row
  count stays.
\<close>

lemma clean_data_columns:
  assumes "wf_df df"
  shows "nrows (clean_data df) = nrows df \<and>
    (\<forall>n. case get_column df n of
        None \<Rightarrow> get_column (clean_data df) n = None
      | Some c \<Rightarrow>
          if list_all isna (cells c) then get_column (clean_data df) n = None
          else if dtype c = Datetime64 then get_column (clean_data df) n = Some c
          else (\<exists>c'. get_column (clean_data df) n = Some c' \<and>
                  (\<forall>v \<in> set (cells c'). \<not> isna v) \<and>
                  cells c' =
                    map (\<lambda>v. if isna v then (if is_numeric (dtype c) then Num 0 else Str [])
                              else v) (cells c)))"
proof (intro conjI allI)
  show "nrows (clean_data df) = nrows df"
    by (simp add: clean_data_def dropna_all_def Let_def)
next
  fix n
  have ex: "list_ex (\<lambda>v. \<not> isna v) xs \<longleftrightarrow> \<not> list_all isna xs" for xs
    by (simp add: list_ex_iff list_all_iff)
  show "case get_column df n of
        None \<Rightarrow> get_column (clean_data df) n = None
      | Some c \<Rightarrow>
          if list_all isna (cells c) then get_column (clean_data df) n = None
          else if dtype c = Datetime64 then get_column (clean_data df) n = Some c
          else (\<exists>c'. get_column (clean_data df) n = Some c' \<and>
                  (\<forall>v \<in> set (cells c'). \<not> isna v) \<and>
                  cells c' =
                    map (\<lambda>v. if isna v then (if is_numeric (dtype c) then Num 0 else Str [])
                              else v) (cells c))"
  proof (cases "get_column df n")
    case None
    then show ?thesis by (simp add: get_column_clean_data [OF assms])
  next
    case (Some c)
    show ?thesis
    proof (cases "list_all isna (cells c)")
      case True
      then show ?thesis using Some by (simp add: get_column_clean_data [OF assms] ex)
    next
      case False
      then have got: "get_column (clean_data df) n = Some (clean_column c)"
        using Some by (simp add: get_column_clean_data [OF assms] ex)
      show ?thesis
      proof (cases "dtype c = Datetime64")
        case True
        with got Some False show ?thesis by (simp add: clean_column_datetime)
      next
        case other: False
        then have "\<forall>v \<in> set (cells (clean_column c)). \<not> isna v"
          using clean_column_no_null by blast
        with got Some False other show ?thesis
          by (simp add: cells_clean_column [symmetric])
      qed
    qed
  qed
qed

text \<open>
  Claim C6 at a frame whose DATE column is of datetime dtype and has a missing date.
  The source's comment promises the empty string for a missing value of a non-numeric
  column, and the claim that no missing value remains; after cleaning, the DATE column
  still holds the missing date, while the text column beside it is filled.
\<close>

theorem clean_data_keeps_missing_date:
  "wf_df dated_frame \<and>
   get_column (clean_data dated_frame) ''DATE'' =
     Some (Column Datetime64 [Stamp 1704067200000000000, Null]) \<and>
   get_column (clean_data dated_frame) ''NOTE'' = Some (Column Object [Str ''ok'', Str []])"
  by (simp add: wf_df_def clean_data_def dropna_all_def clean_column_def fillna_def isna_def
      Let_def get_column_def dated_frame_def)

text \<open>
  Claim C7. Cleaning is idempotent: cleaning a cleaned frame gives the same frame.
\<close>

theorem clean_data_idempotent: "clean_data (clean_data df) = clean_data df"
proof -
  let ?keep = "\<lambda>nc::string \<times> column. list_ex (\<lambda>v. \<not> isna v) (cells (snd nc))"
  let ?fill = "\<lambda>nc::string \<times> column. (fst nc, clean_column (snd nc))"
  let ?xs = "map ?fill (filter ?keep (columns df))"
  have keep: "filter ?keep ?xs = ?xs"
    by (rule filter_True) (auto simp: clean_column_keeps_value)
  have fill: "map ?fill ?xs = ?xs"
    by (simp add: clean_column_idem)
  have cols: "columns (clean_data df) = ?xs"
    by (simp add: clean_data_def dropna_all_def Let_def)
  have "columns (clean_data (clean_data df)) = map ?fill (filter ?keep ?xs)"
    unfolding cols [symmetric] by (simp add: clean_data_def dropna_all_def Let_def)
  with keep fill cols have "columns (clean_data (clean_data df)) = columns (clean_data df)"
    by simp
  moreover have "nrows (clean_data (clean_data df)) = nrows (clean_data df)"
    by (simp add: clean_data_def dropna_all_def Let_def)
  moreover have "dataframe.more (clean_data (clean_data df)) = dataframe.more (clean_data df)"
    by (simp add: clean_data_def dropna_all_def Let_def)
  ultimately show ?thesis
    by (simp add: dataframe.equality)
qed

section \<open>Properties of column categorization\<close>

lemma starts_with_iff: "starts_with sub s \<longleftrightarrow> (\<exists>q. s = sub @ q)"
  by (induction sub s rule: starts_with.induct) auto

lemma contains_iff: "contains sub s \<longleftrightarrow> (\<exists>p q. s = p @ sub @ q)"
proof (induction s)
  case Nil
  then show ?case by auto
next
  case (Cons c cs)
  show ?case
  proof
    assume "contains sub (c # cs)"
    then consider "starts_with sub (c # cs)" | "contains sub cs" by auto
    then show "\<exists>p q. c # cs = p @ sub @ q"
    proof cases
      case 1
      then obtain q where "c # cs = [] @ sub @ q" by (auto simp: starts_with_iff)
      then show ?thesis by blast
    next
      case 2
      with Cons.IH obtain p q where "cs = p @ sub @ q" by blast
      then have "c # cs = (c # p) @ sub @ q" by simp
      then show ?thesis by blast
    qed
  next
    assume "\<exists>p q. c # cs = p @ sub @ q"
    then obtain p q where pq: "c # cs = p @ sub @ q" by blast
    show "contains sub (c # cs)"
    proof (cases p)
      case Nil
      with pq have "starts_with sub (c # cs)" by (auto simp: starts_with_iff)
      then show ?thesis by simp
    next
      case (Cons a p')
      with pq have "cs = p' @ sub @ q" by simp
      with Cons.IH have "contains sub cs" by blast
      then show ?thesis by simp
    qed
  qed
qed

lemma metadata_not_pattern:
  "col \<in> set metadata_names \<Longrightarrow> \<not> is_vibration col \<and> \<not> is_bearing col \<and> \<not> is_shaft col"
  by (auto simp: metadata_names_def is_vibration_def is_bearing_def is_shaft_def)

text \<open>
  Claim C2, as the code has it. Matching is by case-sensitive substring, and every column
  of the frame is in at least one bucket. The buckets are filled independently of each
  other: a column is in \<open>vibration\<close>, \<open>bearing\<close> or \<open>shaft\<close> exactly when its name
  contains one of that bucket's patterns, whatever the earlier buckets hold, and it is in
  \<open>other\<close> exactly when it is in none of the four buckets before. The metadata bucket is
  the fixed list of eight names, and none of them matches a pattern.
\<close>

theorem get_column_categories_buckets:
  assumes "has_column df col"
  shows "metadata (get_column_categories df) = metadata_names \<and>
    (col \<in> set (vibration (get_column_categories df)) \<longleftrightarrow>
       contains ''Vib'' col \<or> contains ''Vel'' col \<or> contains ''Acc'' col \<or> contains ''Disp'' col) \<and>
    (col \<in> set (bearing (get_column_categories df)) \<longleftrightarrow>
       contains ''Bearing'' col \<or> contains ''Cuscinetto'' col) \<and>
    (col \<in> set (shaft (get_column_categories df)) \<longleftrightarrow> contains ''Shaft'' col) \<and>
    (col \<in> set (other (get_column_categories df)) \<longleftrightarrow>
       col \<notin> set (metadata (get_column_categories df)) \<and>
       col \<notin> set (vibration (get_column_categories df)) \<and>
       col \<notin> set (bearing (get_column_categories df)) \<and>
       col \<notin> set (shaft (get_column_categories df))) \<and>
    (col \<in> set (metadata (get_column_categories df)) \<longrightarrow>
       col \<notin> set (vibration (get_column_categories df)) \<and>
       col \<notin> set (bearing (get_column_categories df)) \<and>
       col \<notin> set (shaft (get_column_categories df)))"
  using assms metadata_not_pattern [of col]
  by (auto simp: get_column_categories_def Let_def has_column_def
      is_vibration_def is_bearing_def is_shaft_def)

theorem get_column_categories_buckets_witness:
  "has_column bearing_vib_frame ''Temp'' \<and>
   ''Temp'' \<in> set (other (get_column_categories bearing_vib_frame)) \<and>
   ''Temp'' \<notin> set (vibration (get_column_categories bearing_vib_frame))"
proof -
  have h: "has_column bearing_vib_frame ''Temp''"
    by (simp add: has_column_def bearing_vib_frame_def)
  have m: "''Temp'' \<notin> set metadata_names"
    by (simp add: metadata_names_def)
  from get_column_categories_buckets [OF h] m h show ?thesis
    by simp
qed

text \<open>
  Claim C2 as stated fails: the column \<open>Bearing Vib\<close> is placed in the vibration bucket
  and in the bearing bucket.
\<close>

theorem get_column_categories_two_buckets:
  "''Bearing Vib'' \<in> set (vibration (get_column_categories bearing_vib_frame)) \<and>
   ''Bearing Vib'' \<in> set (bearing (get_column_categories bearing_vib_frame))"
  by (simp add: get_column_categories_def bearing_vib_frame_def Let_def
      is_vibration_def is_bearing_def)

section \<open>Properties of filtering\<close>

lemma select_Nil [simp]: "select [] xs = []" "select m [] = []"
  by (simp_all add: select_def)

lemma select_Cons [simp]:
  "select (b # m) (x # xs) = (if b then x # select m xs else select m xs)"
  by (simp add: select_def)

lemma select_map: "select m (map f xs) = map f (select m xs)"
proof (induction m arbitrary: xs)
  case Nil
  then show ?case by simp
next
  case (Cons b m)
  then show ?case by (cases xs) auto
qed

lemma select_zip: "select m (zip xs ys) = zip (select m xs) (select m ys)"
proof (induction m arbitrary: xs ys)
  case Nil
  then show ?case by simp
next
  case (Cons b m)
  show ?case
  proof (cases xs)
    case Nil
    then show ?thesis by simp
  next
    case xs: (Cons x xs')
    show ?thesis
    proof (cases ys)
      case Nil
      then show ?thesis by simp
    next
      case (Cons y ys')
      with xs Cons.IH show ?thesis by simp
    qed
  qed
qed

lemma select_replicate:
  "length m = n \<Longrightarrow> select m (replicate n x) = replicate (length (filter (\<lambda>b. b) m)) x"
  by (induction m arbitrary: n) auto

lemma select_map_filter: "select (map P xs) xs = filter P xs"
  by (induction xs) auto

lemma length_select: "length xs = length m \<Longrightarrow> length (select m xs) = length (filter (\<lambda>b. b) m)"
  by (induction m arbitrary: xs) (auto simp: length_Suc_conv)

lemma select_select:
  "length xs = length rs \<Longrightarrow>
   select (map P (filter Q rs)) (select (map Q rs) xs) = select (map (\<lambda>r. Q r \<and> P r) rs) xs"
  by (induction xs rs rule: list_induct2) auto

lemma count_select:
  "length (filter (\<lambda>b. b) (map P (filter Q rs))) = length (filter (\<lambda>b. b) (map (\<lambda>r. Q r \<and> P r) rs))"
  by (induction rs) auto

lemma map_fst_zip_eq: "length xs = length ys \<Longrightarrow> map (\<lambda>p. f (fst p)) (zip xs ys) = map f xs"
  by (induction xs ys rule: list_induct2) auto

lemma map_snd_zip_eq: "length xs = length ys \<Longrightarrow> map (\<lambda>p. f (snd p)) (zip xs ys) = map f ys"
  by (induction xs ys rule: list_induct2) auto

lemma length_rows_of_columns:
  "list_all (\<lambda>nc. length (cells (snd nc)) = n) cs \<Longrightarrow> length (rows_of_columns n cs) = n"
  by (induction cs) auto

lemma rows_of_columns_select:
  assumes "list_all (\<lambda>nc. length (cells (snd nc)) = n) cs" "length m = n"
  shows "rows_of_columns (length (filter (\<lambda>b. b) m))
           (map (\<lambda>nc. (fst nc, Column (dtype (snd nc)) (select m (cells (snd nc))))) cs) =
         select m (rows_of_columns n cs)"
  using assms
proof (induction cs)
  case Nil
  then show ?case by (simp add: select_replicate)
next
  case (Cons nc cs)
  then show ?case by (simp add: select_map select_zip)
qed

lemma column_of_rows:
  assumes "distinct (map fst cs)" "list_all (\<lambda>nc. length (cells (snd nc)) = n) cs"
    "map_of cs k = Some c"
  shows "map (\<lambda>r. map_of r k) (rows_of_columns n cs) = map Some (cells c)"
  using assms
proof (induction cs)
  case Nil
  then show ?case by simp
next
  case (Cons nc cs)
  have len: "length (rows_of_columns n cs) = n" "length (cells (snd nc)) = n"
    using Cons.prems(2) by (simp_all add: length_rows_of_columns)
  show ?case
  proof (cases "k = fst nc")
    case True
    with Cons.prems(3) have "c = snd nc" by (cases nc) simp
    moreover have "map (\<lambda>r. map_of r (fst nc)) (rows_of_columns n (nc # cs)) = map Some (cells (snd nc))"
      using len map_fst_zip_eq [where xs = "cells (snd nc)" and ys = "rows_of_columns n cs"
          and f = Some] by (simp add: o_def)
    ultimately show ?thesis using True by simp
  next
    case False
    from Cons.prems(1) have d: "distinct (map fst cs)" by simp
    from Cons.prems(2) have l: "list_all (\<lambda>nc. length (cells (snd nc)) = n) cs" by simp
    from Cons.prems(3) False have m: "map_of cs k = Some c" by (cases nc) simp
    note ih = Cons.IH [OF d l m]
    have "map (\<lambda>r. map_of r k) (rows_of_columns n (nc # cs)) =
          map (\<lambda>p. map_of (snd p) k) (zip (cells (snd nc)) (rows_of_columns n cs))"
      using False by (simp add: o_def)
    also have "\<dots> = map (\<lambda>r. map_of r k) (rows_of_columns n cs)"
      using len map_snd_zip_eq [where xs = "cells (snd nc)" and ys = "rows_of_columns n cs"
          and f = "\<lambda>r. map_of r k"] by simp
    finally show ?thesis using ih by simp
  qed
qed


lemma length_rows_of: "wf_df df \<Longrightarrow> length (rows_of df) = nrows df"
  by (simp add: wf_df_def rows_of_def length_rows_of_columns)

lemma has_column_select_rows [simp]: "has_column (select_rows bs df) k = has_column df k"
  by (simp add: has_column_def select_rows_def o_def)

lemma active_select_rows [simp]: "active (select_rows bs df) f = active df f"
  by (simp add: active_def)

lemma get_column_select_rows:
  "get_column (select_rows bs df) n =
     map_option (\<lambda>c. Column (dtype c) (select bs (cells c))) (get_column df n)"
  unfolding get_column_def select_rows_def
  using map_of_map_snd [of "\<lambda>c. Column (dtype c) (select bs (cells c))" "columns df" n]
  by simp

lemma row_satisfies_select_rows [simp]:
  "row_satisfies Q (select_rows bs df) f = row_satisfies Q df f"
  by (auto simp: row_satisfies_def fun_eq_iff get_column_select_rows split: option.splits)

lemma wf_select_rows:
  assumes "wf_df df" "length bs = nrows df"
  shows "wf_df (select_rows bs df)"
proof -
  have "length (select bs (cells (snd nc))) = length (filter (\<lambda>b. b) bs)"
    if "nc \<in> set (columns df)" for nc
  proof -
    from that assms have "length (cells (snd nc)) = length bs"
      by (auto simp: wf_df_def list_all_iff)
    then show ?thesis by (rule length_select)
  qed
  with assms(1) show ?thesis
    by (simp add: wf_df_def select_rows_def o_def list_all_iff)
qed

lemma rows_of_select_rows:
  assumes "wf_df df" "length bs = nrows df"
  shows "rows_of (select_rows bs df) = select bs (rows_of df)"
proof -
  from assms(1) have "list_all (\<lambda>nc. length (cells (snd nc)) = nrows df) (columns df)"
    by (simp add: wf_df_def)
  from rows_of_columns_select [OF this assms(2)] show ?thesis
    by (simp add: rows_of_def select_rows_def)
qed

lemma select_all:
  "length xs = length rs \<Longrightarrow> select (map (\<lambda>r. True) rs) xs = xs"
  by (induction xs rs rule: list_induct2) auto

lemma select_rows_all:
  assumes "wf_df df"
  shows "select_rows (map (\<lambda>r. True) (rows_of df)) df = df"
proof -
  have "(fst nc, Column (dtype (snd nc)) (select (map (\<lambda>r. True) (rows_of df)) (cells (snd nc)))) = nc"
    if "nc \<in> set (columns df)" for nc
  proof -
    from that assms have "length (cells (snd nc)) = length (rows_of df)"
      by (auto simp: wf_df_def list_all_iff length_rows_of)
    then show ?thesis by (simp add: select_all)
  qed
  then have "map (\<lambda>nc. (fst nc, Column (dtype (snd nc))
      (select (map (\<lambda>r. True) (rows_of df)) (cells (snd nc))))) (columns df) = columns df"
    by (intro map_idI)
  then show ?thesis
    using assms by (simp add: select_rows_def length_rows_of)
qed

lemma select_rows_select_rows:
  assumes "wf_df df"
  shows "select_rows (map P (filter Q (rows_of df))) (select_rows (map Q (rows_of df)) df) =
         select_rows (map (\<lambda>r. Q r \<and> P r) (rows_of df)) df"
proof -
  have "select (map P (filter Q (rows_of df))) (select (map Q (rows_of df)) (cells (snd nc))) =
        select (map (\<lambda>r. Q r \<and> P r) (rows_of df)) (cells (snd nc))"
    if "nc \<in> set (columns df)" for nc
  proof -
    from that assms have "length (cells (snd nc)) = length (rows_of df)"
      by (auto simp: wf_df_def list_all_iff length_rows_of)
    then show ?thesis by (rule select_select)
  qed
  then show ?thesis
    by (simp add: select_rows_def o_def count_select)
qed

lemma filter_step_eq:
  assumes "wf_df df"
  shows "filter_step Q df f =
     (if active df f then select_rows (map (row_satisfies Q df f) (rows_of df)) df else df)"
proof (cases "get_column df (fst f)")
  case None
  then have "\<not> has_column df (fst f)"
    by (simp add: get_column_def has_column_def map_of_eq_None_iff)
  with None show ?thesis by (simp add: filter_step_def active_def)
next
  case (Some c)
  then have h: "has_column df (fst f)"
    by (auto simp: get_column_def has_column_def dest: map_of_SomeD intro: image_eqI [where x = "(fst f, c)"])
  let ?t = "\<lambda>y. case y of Some x \<Rightarrow> matches Q (dtype c) (snd f) x | None \<Rightarrow> False"
  from assms Some have "map (\<lambda>r. map_of r (fst f)) (rows_of df) = map Some (cells c)"
    by (auto simp: wf_df_def rows_of_def get_column_def intro: column_of_rows)
  then have "map ?t (map (\<lambda>r. map_of r (fst f)) (rows_of df)) = map ?t (map Some (cells c))"
    by simp
  then have "map (\<lambda>r. ?t (map_of r (fst f))) (rows_of df) = map (matches Q (dtype c) (snd f)) (cells c)"
    by (simp add: o_def)
  moreover have "row_satisfies Q df f = (\<lambda>r. ?t (map_of r (fst f)))"
    using Some by (simp add: row_satisfies_def fun_eq_iff)
  ultimately have "map (row_satisfies Q df f) (rows_of df) = map (matches Q (dtype c) (snd f)) (cells c)"
    by simp
  with Some h show ?thesis by (simp add: filter_step_def active_def)
qed

lemma filter_data_mask:
  assumes "wf_df df"
  shows "filter_data Q df fs =
     select_rows (map (\<lambda>r. \<forall>f \<in> set fs. active df f \<longrightarrow> row_satisfies Q df f r) (rows_of df)) df"
  using assms
proof (induction fs arbitrary: df)
  case Nil
  then show ?case by (simp add: select_rows_all)
next
  case (Cons f fs)
  show ?case
  proof (cases "active df f")
    case False
    then have "filter_data Q df (f # fs) = filter_data Q df fs"
      by (simp add: filter_step_eq [OF Cons.prems])
    with False Cons.IH [OF Cons.prems] show ?thesis by simp
  next
    case True
    let ?Q = "row_satisfies Q df f"
    let ?df1 = "select_rows (map ?Q (rows_of df)) df"
    let ?P = "\<lambda>r. \<forall>g \<in> set fs. active df g \<longrightarrow> row_satisfies Q df g r"
    have len: "length (map ?Q (rows_of df)) = nrows df"
      by (simp add: length_rows_of [OF Cons.prems])
    have wf1: "wf_df ?df1"
      by (rule wf_select_rows [OF Cons.prems len])
    have rows1: "rows_of ?df1 = filter ?Q (rows_of df)"
      by (simp add: rows_of_select_rows [OF Cons.prems len] select_map_filter)
    have "filter_data Q df (f # fs) = filter_data Q ?df1 fs"
      using True by (simp add: filter_step_eq [OF Cons.prems])
    also have "\<dots> = select_rows (map ?P (rows_of ?df1)) ?df1"
      using Cons.IH [OF wf1] by simp
    also have "\<dots> = select_rows (map (\<lambda>r. ?Q r \<and> ?P r) (rows_of df)) df"
      unfolding rows1 by (rule select_rows_select_rows [OF Cons.prems])
    also have "(\<lambda>r. ?Q r \<and> ?P r) =
        (\<lambda>r. \<forall>g \<in> set (f # fs). active df g \<longrightarrow> row_satisfies Q df g r)"
      using True by auto
    finally show ?thesis .
  qed
qed

lemma row_cell:
  assumes "wf_df df" "r \<in> set (rows_of df)" "get_column df k = Some c"
  shows "\<exists>x \<in> set (cells c). map_of r k = Some x"
proof -
  from assms(1,3) have "map (\<lambda>r. map_of r k) (rows_of df) = map Some (cells c)"
    by (auto simp: wf_df_def rows_of_def get_column_def intro: column_of_rows)
  moreover from assms(2) have "map_of r k \<in> set (map (\<lambda>r. map_of r k) (rows_of df))"
    by simp
  ultimately have "map_of r k \<in> set (map Some (cells c))"
    by simp
  then show ?thesis by auto
qed

lemma falsy_scalar:
  "\<not> truthy (Scalar s) \<longleftrightarrow> s = PNone \<or> s = PNum 0 \<or> s = PStr [] \<or> s = PFlag False"
  by (cases s) auto

lemma plain_scalar_test:
  assumes "plain_cell t x" "plain_value t s"
  shows "elem_eq Q t x s \<longleftrightarrow> x = cell_of s"
  using assms by (simp add: elem_eq_def)

lemma plain_list_test:
  assumes "plain_cell t x" "list_all (plain_value t) vs"
  shows "elem_isin Q t x vs \<longleftrightarrow> (\<exists>w \<in> set vs. x = cell_of w)"
  using assms by (simp add: elem_isin_def list_ex_iff)

lemma plain_entry_test:
  assumes "get_column df (fst f) = Some c" "map_of r (fst f) = Some x"
    "plain_cell (dtype c) x" "plain_entry df f"
  shows "(truthy (snd f) \<longrightarrow> matches Q (dtype c) (snd f) x) \<longleftrightarrow>
     (case snd f of
        Scalar s \<Rightarrow>
          s = PNone \<or> s = PNum 0 \<or> s = PStr [] \<or> s = PFlag False \<or>
          map_of r (fst f) = Some (cell_of s)
      | Values vs \<Rightarrow> vs = [] \<or> (\<exists>w \<in> set vs. map_of r (fst f) = Some (cell_of w)))"
proof (cases "snd f")
  case (Scalar s)
  show ?thesis
  proof (cases "truthy (Scalar s)")
    case True
    with assms(1,4) Scalar have "plain_value (dtype c) s"
      by (simp add: plain_entry_def)
    from plain_scalar_test [OF assms(3) this] True assms(2) Scalar show ?thesis
      using falsy_scalar [of s] by simp
  next
    case False
    with Scalar show ?thesis
      using falsy_scalar [of s] by auto
  qed
next
  case (Values vs)
  from assms(1,4) Values have "list_all (plain_value (dtype c)) vs"
    by (simp add: plain_entry_def)
  from plain_list_test [OF assms(3) this] assms(2) Values show ?thesis
    by auto
qed

text \<open>
  Claim C8, for the well-formed frames and Filter Specs in which every comparison is
  direct. Filtering returns exactly the rows, in their order, that pass every entry whose
  column the frame has: for a scalar that is not falsy (\<open>None\<close>, zero, the empty string,
  false) the row's cell equals the scalar, for a list that is not empty the row's cell is
  a member of the list. An entry whose column is absent or whose value is falsy or empty
  restricts nothing. The columns and their dtypes stay, and two specs with the same
  entries, in whatever order, give the same frame.
\<close>

theorem filter_data_conjunctive:
  assumes "wf_df df" "plain_frame df" "plain_spec df fs"
  shows "rows_of (filter_data Q df fs) =
           filter (\<lambda>r. \<forall>f \<in> set fs. has_column df (fst f) \<longrightarrow>
                     (case snd f of
                        Scalar s \<Rightarrow>
                          s = PNone \<or> s = PNum 0 \<or> s = PStr [] \<or> s = PFlag False \<or>
                          map_of r (fst f) = Some (cell_of s)
                      | Values vs \<Rightarrow>
                          vs = [] \<or> (\<exists>w \<in> set vs. map_of r (fst f) = Some (cell_of w))))
             (rows_of df) \<and>
         map (\<lambda>nc. (fst nc, dtype (snd nc))) (columns (filter_data Q df fs)) =
           map (\<lambda>nc. (fst nc, dtype (snd nc))) (columns df) \<and>
         (set gs = set fs \<longrightarrow> filter_data Q df gs = filter_data Q df fs)"
proof (intro conjI impI)
  let ?P = "\<lambda>r. \<forall>f \<in> set fs. active df f \<longrightarrow> row_satisfies Q df f r"
  let ?T = "\<lambda>r. \<forall>f \<in> set fs. has_column df (fst f) \<longrightarrow>
      (case snd f of
         Scalar s \<Rightarrow>
           s = PNone \<or> s = PNum 0 \<or> s = PStr [] \<or> s = PFlag False \<or>
           map_of r (fst f) = Some (cell_of s)
       | Values vs \<Rightarrow> vs = [] \<or> (\<exists>w \<in> set vs. map_of r (fst f) = Some (cell_of w)))"
  have len: "length (map ?P (rows_of df)) = nrows df"
    by (simp add: length_rows_of [OF assms(1)])
  have rows: "rows_of (filter_data Q df fs) = filter ?P (rows_of df)"
    unfolding filter_data_mask [OF assms(1)]
    by (simp add: rows_of_select_rows [OF assms(1) len] select_map_filter)
  have same: "?P r = ?T r" if r: "r \<in> set (rows_of df)" for r
  proof -
    have "(active df f \<longrightarrow> row_satisfies Q df f r) \<longleftrightarrow>
        (has_column df (fst f) \<longrightarrow>
          (case snd f of
             Scalar s \<Rightarrow>
               s = PNone \<or> s = PNum 0 \<or> s = PStr [] \<or> s = PFlag False \<or>
               map_of r (fst f) = Some (cell_of s)
           | Values vs \<Rightarrow> vs = [] \<or> (\<exists>w \<in> set vs. map_of r (fst f) = Some (cell_of w))))"
      if f: "f \<in> set fs" for f
    proof (cases "get_column df (fst f)")
      case None
      then have "\<not> has_column df (fst f)"
        by (simp add: get_column_def has_column_def map_of_eq_None_iff)
      then show ?thesis by (simp add: active_def)
    next
      case (Some c)
      then have h: "has_column df (fst f)"
        by (auto simp: get_column_def has_column_def dest: map_of_SomeD
            intro: image_eqI [where x = "(fst f, c)"])
      from row_cell [OF assms(1) r Some] obtain x where
        x: "x \<in> set (cells c)" "map_of r (fst f) = Some x"
        by blast
      from Some have "(fst f, c) \<in> set (columns df)"
        by (simp add: get_column_def map_of_SomeD)
      with assms(2) x(1) have px: "plain_cell (dtype c) x"
        by (force simp: plain_frame_def list_all_iff)
      from assms(3) f have pe: "plain_entry df f"
        by (simp add: plain_spec_def list_all_iff)
      have "(active df f \<longrightarrow> row_satisfies Q df f r) \<longleftrightarrow>
          (truthy (snd f) \<longrightarrow> matches Q (dtype c) (snd f) x)"
        using h Some x(2) by (simp add: active_def row_satisfies_def)
      with plain_entry_test [OF Some x(2) px pe, of Q] h show ?thesis
        by simp
    qed
    then show ?thesis by blast
  qed
  have "filter ?P (rows_of df) = filter ?T (rows_of df)"
    by (rule filter_cong [OF refl]) (rule same)
  with rows show "rows_of (filter_data Q df fs) = filter ?T (rows_of df)"
    by simp
  show "map (\<lambda>nc. (fst nc, dtype (snd nc))) (columns (filter_data Q df fs)) =
        map (\<lambda>nc. (fst nc, dtype (snd nc))) (columns df)"
    unfolding filter_data_mask [OF assms(1)] by (simp add: select_rows_def o_def)
  assume "set gs = set fs"
  then show "filter_data Q df gs = filter_data Q df fs"
    by (simp add: filter_data_mask [OF assms(1)])
qed

theorem filter_data_conjunctive_witness:
  "wf_df filter_frame \<and> plain_frame filter_frame \<and> plain_spec filter_frame filter_spec \<and>
   rows_of (filter_data no_coercion filter_frame filter_spec) =
     [[(''A'', Num 1), (''B'', Str ''x''), (''C'', Num 5), (''D'', Num 0), (''E'', Flag True)]] \<and>
   filter_data no_coercion filter_frame (rev filter_spec) =
     filter_data no_coercion filter_frame filter_spec"
proof -
  have h: "wf_df filter_frame"
    by (simp add: wf_df_def filter_frame_def)
  have p: "plain_frame filter_frame"
    by (simp add: plain_frame_def filter_frame_def exact_bound_def)
  have q: "plain_spec filter_frame filter_spec"
    by (simp add: plain_spec_def plain_entry_def filter_spec_def get_column_def
        filter_frame_def exact_bound_def)
  have rows: "rows_of filter_frame =
      [[(''A'', Num 1), (''B'', Str ''x''), (''C'', Num 5), (''D'', Num 0), (''E'', Flag True)],
       [(''A'', Num 2), (''B'', Str ''y''), (''C'', Num 5), (''D'', Num 1), (''E'', Flag False)],
       [(''A'', Num 3), (''B'', Str ''x''), (''C'', Num 0), (''D'', Num 2), (''E'', Flag True)],
       [(''A'', Num 1), (''B'', Str ''x''), (''C'', Null), (''D'', Num 3), (''E'', Flag False)]]"
    by (simp add: rows_of_def filter_frame_def eval_nat_numeral)
  have cols: "has_column filter_frame ''A''" "has_column filter_frame ''B''"
    "has_column filter_frame ''C''" "has_column filter_frame ''D''"
    "has_column filter_frame ''E''" "\<not> has_column filter_frame ''Y''"
    "\<not> has_column filter_frame ''Z''"
    by (simp_all add: has_column_def filter_frame_def)
  have s: "set (rev filter_spec) = set filter_spec"
    by simp
  note fd = filter_data_conjunctive [OF h p q, of no_coercion "rev filter_spec"]
  from fd s have "filter_data no_coercion filter_frame (rev filter_spec) =
      filter_data no_coercion filter_frame filter_spec"
    by blast
  moreover from fd have "rows_of (filter_data no_coercion filter_frame filter_spec) =
      [[(''A'', Num 1), (''B'', Str ''x''), (''C'', Num 5), (''D'', Num 0), (''E'', Flag True)]]"
    by (simp add: rows filter_spec_def cols)
  ultimately show ?thesis
    using h p q by simp
qed

section \<open>Properties of the Merger\<close>

lemma set_concat_names: "set (concat_names dfs) = (\<Union>df \<in> set dfs. fst ` set (columns df))"
  by (auto simp: concat_names_def)

lemma distinct_concat_names: "distinct (concat_names dfs)"
  by (simp add: concat_names_def)

lemma map_of_tabulate:
  "map_of (map (\<lambda>n. (n, f n)) ns) k = (if k \<in> set ns then Some (f k) else None)"
  by (induction ns) auto

lemma get_column_pd_concat:
  "get_column (pd_concat P dfs) n =
     (if n \<in> set (concat_names dfs)
      then Some (Column (concat_dtype P dfs n) (concat_cells P dfs n)) else None)"
  by (simp add: get_column_def pd_concat_def map_of_tabulate)

lemma length_concat_part:
  assumes "wf_df df"
  shows "length (concat_part P t n df) = nrows df"
proof (cases "get_column df n")
  case None
  then show ?thesis by (simp add: concat_part_def)
next
  case (Some c)
  then have "(n, c) \<in> set (columns df)"
    by (simp add: get_column_def map_of_SomeD)
  with assms have "length (cells c) = nrows df"
    by (force simp: wf_df_def list_all_iff)
  with Some show ?thesis by (simp add: concat_part_def)
qed

lemma length_concat_parts:
  assumes "\<forall>df \<in> set dfs. wf_df df"
  shows "length (concat (map (concat_part P t n) dfs)) = sum_list (map nrows dfs)"
  using assms by (induction dfs) (simp_all add: length_concat_part)

text \<open>
  Claim C5, as the code has it. Merging well-formed frames gives a well-formed frame whose
  row count is the sum of the row counts and whose columns are the union of the source
  columns. Every column holds, source after source in the order given and in the source's
  row order, the cells the source has in that column: unchanged where the source's column
  has the dtype of the merged column, and converted to that dtype cell by cell where it
  has not. For a source that lacks the column it holds a missing cell in each of that
  source's rows. Merging the empty list gives the frame without rows and columns.
\<close>

theorem merge_dataframes_concat:
  assumes "\<forall>df \<in> set dfs. wf_df df"
  shows "wf_df (merge_dataframes P dfs) \<and>
    nrows (merge_dataframes P dfs) = sum_list (map nrows dfs) \<and>
    set (map fst (columns (merge_dataframes P dfs))) =
      (\<Union>df \<in> set dfs. set (map fst (columns df))) \<and>
    (\<forall>n. has_column (merge_dataframes P dfs) n \<longrightarrow>
       (\<exists>c. get_column (merge_dataframes P dfs) n = Some c \<and>
          cells c =
            concat (map (\<lambda>df. case get_column df n of
                                 Some s \<Rightarrow>
                                   if dtype s = dtype c then cells s
                                   else map (cast_cell P (dtype s) (dtype c)) (cells s)
                               | None \<Rightarrow> replicate (nrows df) Null) dfs))) \<and>
    merge_dataframes P [] = \<lparr>nrows = 0, columns = []\<rparr>"
proof (cases "dfs = []")
  case True
  then show ?thesis
    by (simp add: merge_dataframes_def wf_df_def has_column_def)
next
  case False
  then have m: "merge_dataframes P dfs = pd_concat P dfs"
    by (simp add: merge_dataframes_def)
  have names: "map fst (columns (pd_concat P dfs)) = concat_names dfs"
    by (simp add: pd_concat_def o_def)
  have "wf_df (pd_concat P dfs)"
    using length_concat_parts [OF assms]
    by (simp add: wf_df_def names distinct_concat_names)
      (simp add: pd_concat_def list_all_iff concat_cells_def)
  moreover have "nrows (pd_concat P dfs) = sum_list (map nrows dfs)"
    by (simp add: pd_concat_def)
  moreover have "set (map fst (columns (pd_concat P dfs))) =
      (\<Union>df \<in> set dfs. set (map fst (columns df)))"
    unfolding names by (simp add: set_concat_names)
  moreover have "\<exists>c. get_column (pd_concat P dfs) n = Some c \<and>
          cells c =
            concat (map (\<lambda>df. case get_column df n of
                                 Some s \<Rightarrow>
                                   if dtype s = dtype c then cells s
                                   else map (cast_cell P (dtype s) (dtype c)) (cells s)
                               | None \<Rightarrow> replicate (nrows df) Null) dfs)"
    if "has_column (pd_concat P dfs) n" for n
  proof -
    let ?c = "Column (concat_dtype P dfs n) (concat_cells P dfs n)"
    have d: "dtype ?c = concat_dtype P dfs n"
      by simp
    from that have "get_column (pd_concat P dfs) n = Some ?c"
      unfolding has_column_def names by (simp add: get_column_pd_concat)
    moreover have "cells ?c =
        concat (map (\<lambda>df. case get_column df n of
                             Some s \<Rightarrow>
                               if dtype s = dtype ?c then cells s
                               else map (cast_cell P (dtype s) (dtype ?c)) (cells s)
                           | None \<Rightarrow> replicate (nrows df) Null) dfs)"
      unfolding d by (simp add: concat_cells_def concat_part_def [abs_def])
    ultimately show ?thesis
      by (intro exI [of _ ?c] conjI)
  qed
  moreover have "merge_dataframes P [] = \<lparr>nrows = 0, columns = []\<rparr>"
    by (simp add: merge_dataframes_def)
  ultimately show ?thesis
    unfolding m by blast
qed

theorem merge_dataframes_concat_witness:
  "wf_df source_a \<and> wf_df source_b \<and>
   nrows (merge_dataframes concat_rules [source_a, source_b]) = 3 \<and>
   (\<exists>c. get_column (merge_dataframes concat_rules [source_a, source_b]) ''A'' = Some c \<and>
      cells c = [Num 1, Num 0, Num 3])"
proof -
  have h: "\<forall>df \<in> set [source_a, source_b]. wf_df df"
    by (simp add: wf_df_def source_a_def source_b_def)
  have c: "has_column (merge_dataframes concat_rules [source_a, source_b]) ''A''"
    by (simp add: has_column_def merge_dataframes_def pd_concat_def concat_names_def
        source_a_def source_b_def)
  from merge_dataframes_concat [OF h, of concat_rules] c
  have "nrows (merge_dataframes concat_rules [source_a, source_b]) =
      sum_list (map nrows [source_a, source_b])"
    and "\<exists>c. get_column (merge_dataframes concat_rules [source_a, source_b]) ''A'' = Some c \<and>
          cells c =
            concat (map (\<lambda>df. case get_column df ''A'' of
                                 Some s \<Rightarrow>
                                   if dtype s = dtype c then cells s
                                   else map (cast_cell concat_rules (dtype s) (dtype c)) (cells s)
                               | None \<Rightarrow> replicate (nrows df) Null) [source_a, source_b])"
    by blast+
  moreover have "get_column (merge_dataframes concat_rules [source_a, source_b]) ''A'' =
      Some (Column Float64 [Num 1, Num 0, Num 3])"
    by (simp add: merge_dataframes_def pd_concat_def concat_names_def concat_cells_def
        concat_part_def concat_dtype_def concat_rules_def stacked_dtype_def get_column_def
        source_a_def source_b_def)
  ultimately show ?thesis
    using h by (simp add: source_a_def source_b_def)
qed

text \<open>
  Claim C5 as stated fails where the sources differ in their columns: both sources below
  are clean, and the merged column \<open>B\<close> holds missing cells, not empty strings, in the
  rows of the source without \<open>B\<close>; likewise the merged column \<open>A\<close> and zero.
\<close>

theorem merge_dataframes_leaves_nulls:
  "clean_data source_a = source_a \<and> clean_data source_c = source_c \<and>
   get_column (merge_dataframes concat_rules [source_a, source_c]) ''B'' =
     Some (Column Object [Null, Null, Str []]) \<and>
   get_column (merge_dataframes concat_rules [source_a, source_c]) ''A'' =
     Some (Column Float64 [Num 1, Num 0, Null])"
  by (simp add: clean_data_def dropna_all_def clean_column_def fillna_def isna_def Let_def
      merge_dataframes_def pd_concat_def concat_names_def concat_cells_def concat_part_def
      concat_dtype_def concat_rules_def stacked_dtype_def get_column_def
      source_a_def source_c_def eval_nat_numeral)

section \<open>Properties of the Timestamp Synthesizer\<close>

lemma map_of_assign:
  "map_of (assign n c ps) k = (if k = n then Some c else map_of ps k)"
  by (induction ps) auto

lemma map_fst_assign:
  "map fst (assign n c ps) = (if n \<in> fst ` set ps then map fst ps else map fst ps @ [n])"
  by (induction ps) auto

lemma names_assign: "fst ` set (assign n c ps) = insert n (fst ` set ps)"
  by (induction ps) auto

lemma get_column_set_column:
  "get_column (set_column df n c) k = (if k = n then Some c else get_column df k)"
  by (simp add: get_column_def set_column_def map_of_assign)

lemma has_column_get_column: "has_column df n \<longleftrightarrow> get_column df n \<noteq> None"
  by (simp add: has_column_def get_column_def map_of_eq_None_iff)

lemma create_timestamp_skip:
  "\<not> (has_column df ''DATE'' \<and> has_column df ''TIME'') \<Longrightarrow> create_timestamp L df = Inr df"
  by (auto simp: create_timestamp_def)

lemma create_timestamp_run:
  assumes "get_column df ''DATE'' = Some dc" "get_column df ''TIME'' = Some tc"
  shows "create_timestamp L df =
     (if dtype dc = Datetime64
      then Inr (set_column (set_column df ''TIME'' (astype_str L tc)) ''TIMESTAMP''
             (to_datetime_coerce L
                (map (\<lambda>dt. combine (fst dt) (snd dt))
                   (zip (map (\<lambda>v. case v of Stamp t \<Rightarrow> Str (strftime_ymd L t) | _ \<Rightarrow> Null) (cells dc))
                        (map (\<lambda>v. Str (py_str L v)) (cells tc))))))
      else Inl AttributeError)"
  using assms
  by (simp add: create_timestamp_def has_column_get_column get_column_set_column Let_def
      dt_strftime_def astype_str_def)




lemma iso_date_example: "iso_date 1704067200000000000 = ''2024-01-01''"
  by code_simp

lemma parse_iso_example:
  "parse_iso ''2024-01-01 08:00:00'' = Some 1704096000000000000"
  "parse_iso ''2024-01-01 nan'' = None"
  by code_simp+

lemma create_timestamp_stamp_frame: "create_timestamp iso_lib stamp_frame = Inr stamp_frame_result"
  by (simp add: create_timestamp_def stamp_frame_def stamp_frame_result_def has_column_def
      get_column_def set_column_def astype_str_def dt_strftime_def to_datetime_coerce_def
      iso_lib_def iso_date_example parse_iso_example Let_def)

lemma create_timestamp_text_date: "create_timestamp iso_lib text_date_frame = Inl AttributeError"
  by (simp add: create_timestamp_def text_date_frame_def has_column_def
      get_column_def set_column_def astype_str_def dt_strftime_def Let_def)


lemma combine_cells:
  "combine (case d of Stamp x \<Rightarrow> Str (strftime_ymd L x) | _ \<Rightarrow> Null) (Str (py_str L t)) =
     (case combined_text L d t of Some s \<Rightarrow> Str s | None \<Rightarrow> Null)"
  by (cases d) (simp_all add: combined_text_def)

lemma combined_column:
  "map (\<lambda>dt. combine (fst dt) (snd dt))
     (zip (map (\<lambda>v. case v of Stamp t \<Rightarrow> Str (strftime_ymd L t) | _ \<Rightarrow> Null) ds)
          (map (\<lambda>v. Str (py_str L v)) ts)) =
   map (\<lambda>dt. case combined_text L (fst dt) (snd dt) of Some s \<Rightarrow> Str s | None \<Rightarrow> Null) (zip ds ts)"
  by (simp add: zip_map_map combine_cells split_def)

lemma to_datetime_coerce_combined:
  "to_datetime_coerce L
     (map (\<lambda>dt. case combined_text L (fst dt) (snd dt) of Some s \<Rightarrow> Str s | None \<Rightarrow> Null) (zip ds ts)) =
   Column Datetime64
     (map (\<lambda>dt. parsed_cell L (column_texts L ds ts) (combined_text L (fst dt) (snd dt))) (zip ds ts))"
proof -
  have texts: "concat (map (\<lambda>v. case v of Str s \<Rightarrow> [s] | _ \<Rightarrow> [])
        (map (\<lambda>dt. case combined_text L (fst dt) (snd dt) of Some s \<Rightarrow> Str s | None \<Rightarrow> Null) zs)) =
      concat (map (\<lambda>dt. case combined_text L (fst dt) (snd dt) of Some s \<Rightarrow> [s] | None \<Rightarrow> []) zs)"
    for zs :: "(cell \<times> cell) list"
    by (induction zs) (auto split: option.splits)
  show ?thesis
    unfolding to_datetime_coerce_def Let_def texts column_texts_def [symmetric]
    by (auto simp: parsed_cell_def split: option.splits)
qed

text \<open>
  Claim C3, as the code has it, for a well-formed frame. Without a DATE or without a TIME
  column the frame is returned as it is. With both, and DATE of datetime dtype, the
  synthesis returns a frame with the same row count and a TIMESTAMP column of datetime
  dtype with one cell per row: the DATE formatted as an ISO calendar date, a single
  space and the TIME coerced to text are parsed; a row whose DATE is missing or whose
  combination does not parse has a missing timestamp. With both and DATE of another
  dtype the synthesis raises AttributeError.
\<close>

theorem create_timestamp_synthesis:
  assumes "wf_df df"
  shows "(\<not> (has_column df ''DATE'' \<and> has_column df ''TIME'') \<longrightarrow> create_timestamp L df = Inr df) \<and>
    (\<forall>dc tc. get_column df ''DATE'' = Some dc \<and> get_column df ''TIME'' = Some tc \<longrightarrow>
       (if dtype dc = Datetime64
        then \<exists>df' ts. create_timestamp L df = Inr df' \<and> nrows df' = nrows df \<and>
               get_column df' ''TIMESTAMP'' = Some ts \<and> dtype ts = Datetime64 \<and>
               length (cells ts) = nrows df \<and>
               cells ts =
                 map (\<lambda>dt. parsed_cell L (column_texts L (cells dc) (cells tc))
                             (combined_text L (fst dt) (snd dt)))
                   (zip (cells dc) (cells tc))
        else create_timestamp L df = Inl AttributeError))"
proof (intro conjI allI impI)
  assume "\<not> (has_column df ''DATE'' \<and> has_column df ''TIME'')"
  then show "create_timestamp L df = Inr df"
    by (rule create_timestamp_skip)
next
  fix dc tc
  assume "get_column df ''DATE'' = Some dc \<and> get_column df ''TIME'' = Some tc"
  then have dc: "get_column df ''DATE'' = Some dc" and tc: "get_column df ''TIME'' = Some tc"
    by simp_all
  from dc tc have "(''DATE'', dc) \<in> set (columns df)" "(''TIME'', tc) \<in> set (columns df)"
    by (simp_all add: get_column_def map_of_SomeD)
  with assms have len: "length (cells dc) = nrows df" "length (cells tc) = nrows df"
    by (force simp: wf_df_def list_all_iff)+
  let ?ts = "Column Datetime64
     (map (\<lambda>dt. parsed_cell L (column_texts L (cells dc) (cells tc)) (combined_text L (fst dt) (snd dt)))
        (zip (cells dc) (cells tc)))"
  let ?df' = "set_column (set_column df ''TIME'' (astype_str L tc)) ''TIMESTAMP'' ?ts"
  show "if dtype dc = Datetime64
        then \<exists>df' ts. create_timestamp L df = Inr df' \<and> nrows df' = nrows df \<and>
               get_column df' ''TIMESTAMP'' = Some ts \<and> dtype ts = Datetime64 \<and>
               length (cells ts) = nrows df \<and>
               cells ts =
                 map (\<lambda>dt. parsed_cell L (column_texts L (cells dc) (cells tc))
                             (combined_text L (fst dt) (snd dt)))
                   (zip (cells dc) (cells tc))
        else create_timestamp L df = Inl AttributeError"
  proof (cases "dtype dc = Datetime64")
    case False
    then show ?thesis by (simp add: create_timestamp_run [OF dc tc])
  next
    case True
    then have "create_timestamp L df = Inr ?df'"
      by (simp add: create_timestamp_run [OF dc tc] combined_column to_datetime_coerce_combined)
    moreover have "nrows ?df' = nrows df"
      by (simp add: set_column_def)
    moreover have "get_column ?df' ''TIMESTAMP'' = Some ?ts"
      by (simp add: get_column_set_column)
    moreover have "length (cells ?ts) = nrows df"
      using len by simp
    ultimately show ?thesis using True by auto
  qed
qed

theorem create_timestamp_synthesis_witness:
  "wf_df stamp_frame \<and>
   (\<exists>df' ts. create_timestamp iso_lib stamp_frame = Inr df' \<and>
      get_column df' ''TIMESTAMP'' = Some ts \<and> length (cells ts) = 3)"
proof -
  have h: "wf_df stamp_frame"
    by (simp add: wf_df_def stamp_frame_def)
  have c: "get_column stamp_frame ''DATE'' =
        Some (Column Datetime64 [Stamp 1704067200000000000, Stamp 1704067200000000000, Null]) \<and>
      get_column stamp_frame ''TIME'' = Some (Column Object [Str ''08:00:00'', Null, Str ''09:30:00''])"
    by (simp add: get_column_def stamp_frame_def)
  have n: "nrows stamp_frame = 3"
    by (simp add: stamp_frame_def)
  from create_timestamp_synthesis [OF h, of iso_lib, THEN conjunct2, rule_format, OF c]
  have "\<exists>df' ts. create_timestamp iso_lib stamp_frame = Inr df' \<and>
      get_column df' ''TIMESTAMP'' = Some ts \<and> length (cells ts) = nrows stamp_frame"
    by auto
  with h n show ?thesis by simp
qed

text \<open>
  Claim C3 as stated fails for a DATE column that is not of datetime dtype: a frame with
  the dates held as text makes the synthesis raise.
\<close>

theorem create_timestamp_text_date_raises:
  "has_column text_date_frame ''DATE'' \<and> has_column text_date_frame ''TIME'' \<and>
   create_timestamp iso_lib text_date_frame = Inl AttributeError"
  by (simp add: create_timestamp_text_date) (simp add: has_column_def text_date_frame_def)

text \<open>
  Claim C4, as the code has it. When the synthesis runs and returns, the row count and
  every column other than TIME and TIMESTAMP are as in the input; the TIME column is
  replaced by the object column of its cells coerced to text; TIMESTAMP is overwritten
  if the input had such a column and appended as the last column if not.
\<close>

theorem create_timestamp_frame:
  assumes "create_timestamp L df = Inr df'" "has_column df ''DATE''" "has_column df ''TIME''"
  shows "nrows df' = nrows df \<and>
    (\<forall>n. n \<noteq> ''TIME'' \<and> n \<noteq> ''TIMESTAMP'' \<longrightarrow> get_column df' n = get_column df n) \<and>
    (\<exists>tc. get_column df ''TIME'' = Some tc \<and>
       get_column df' ''TIME'' = Some (Column Object (map (\<lambda>v. Str (py_str L v)) (cells tc)))) \<and>
    has_column df' ''TIMESTAMP'' \<and>
    map fst (columns df') =
      (if has_column df ''TIMESTAMP'' then map fst (columns df)
       else map fst (columns df) @ [''TIMESTAMP''])"
proof -
  from assms(2,3) obtain dc tc where
    dc: "get_column df ''DATE'' = Some dc" and tc: "get_column df ''TIME'' = Some tc"
    by (auto simp: has_column_get_column)
  from assms(1) obtain ts where
    df': "df' = set_column (set_column df ''TIME'' (astype_str L tc)) ''TIMESTAMP'' ts"
    by (auto simp: create_timestamp_run [OF dc tc] split: if_splits)
  have time: "''TIME'' \<in> fst ` set (columns df)"
    using assms(3) by (simp add: has_column_def)
  have "nrows df' = nrows df"
    by (simp add: df' set_column_def)
  moreover have "get_column df' n = get_column df n" if "n \<noteq> ''TIME'' \<and> n \<noteq> ''TIMESTAMP''" for n
    using that by (simp add: df' get_column_set_column)
  moreover have "get_column df' ''TIME'' = Some (Column Object (map (\<lambda>v. Str (py_str L v)) (cells tc)))"
    by (simp add: df' get_column_set_column astype_str_def)
  moreover have "has_column df' ''TIMESTAMP''"
    by (simp add: df' has_column_get_column get_column_set_column)
  moreover have "map fst (columns df') =
      (if has_column df ''TIMESTAMP'' then map fst (columns df)
       else map fst (columns df) @ [''TIMESTAMP''])"
    using time by (simp add: df' set_column_def map_fst_assign has_column_def names_assign)
  ultimately show ?thesis using tc by blast
qed

theorem create_timestamp_frame_witness:
  "create_timestamp iso_lib stamp_frame = Inr stamp_frame_result \<and>
   has_column stamp_frame ''DATE'' \<and> has_column stamp_frame ''TIME'' \<and>
   get_column stamp_frame_result ''TEMP'' = get_column stamp_frame ''TEMP'' \<and>
   get_column stamp_frame_result ''DATE'' = get_column stamp_frame ''DATE''"
proof -
  have h: "has_column stamp_frame ''DATE''" "has_column stamp_frame ''TIME''"
    by (simp_all add: has_column_def stamp_frame_def)
  from create_timestamp_frame [OF create_timestamp_stamp_frame h]
  have "\<forall>n. n \<noteq> ''TIME'' \<and> n \<noteq> ''TIMESTAMP'' \<longrightarrow>
      get_column stamp_frame_result n = get_column stamp_frame n"
    by blast
  then have "get_column stamp_frame_result ''TEMP'' = get_column stamp_frame ''TEMP''"
    "get_column stamp_frame_result ''DATE'' = get_column stamp_frame ''DATE''"
    by simp_all
  with h create_timestamp_stamp_frame show ?thesis by simp
qed

text \<open>
  Claim C4 as stated fails: the synthesis rewrites the TIME column. Here the missing
  time of the second row becomes the text \<^verbatim>\<open>nan\<close>.
\<close>

theorem create_timestamp_rewrites_time:
  "create_timestamp iso_lib stamp_frame = Inr stamp_frame_result \<and>
   get_column stamp_frame ''TIME'' = Some (Column Object [Str ''08:00:00'', Null, Str ''09:30:00'']) \<and>
   get_column stamp_frame_result ''TIME'' =
     Some (Column Object [Str ''08:00:00'', Str ''nan'', Str ''09:30:00''])"
  by (simp add: create_timestamp_stamp_frame)
    (simp add: get_column_def stamp_frame_def stamp_frame_result_def)

section \<open>Properties of the correlation matrix\<close>













lemma retained_column:
  "a \<in> set (retained df cols) \<Longrightarrow> \<exists>c. get_column df a = Some c \<and> column_cells df a = cells c"
  by (auto simp: retained_def column_cells_def split: option.splits)





















text \<open>
  Claim C1 at a candidate list that names a column the frame does not have: no numeric
  column remains among the candidates, and the code raises KeyError where the claim
  promises an empty result.
\<close>

theorem get_correlation_data_absent_column:
  "wf_df text_frame \<and> \<not> has_column text_frame ''B'' \<and>
   retained text_frame [''A'', ''B''] = [] \<and>
   get_correlation_data exact_coef text_frame [''A'', ''B''] = Inl (KeyError ''B'')"
  by (simp add: wf_df_def retained_def get_correlation_data_def select_columns_def
      has_column_def get_column_def text_frame_def is_numeric_def)

section \<open>Properties of time-series extraction\<close>

lemma filter_select_self:
  "filter (\<lambda>p. P (fst p)) (zip (select (map P ts) ts) (select (map P ts) xs)) =
   filter (\<lambda>p. P (fst p)) (zip ts xs)"
proof (induction ts arbitrary: xs)
  case Nil
  then show ?case by simp
next
  case (Cons t ts)
  then show ?case by (cases xs) auto
qed

lemma keyed_rows_select:
  "keyed_rows (select (map (\<lambda>v. \<not> isna v) ts) ts) (select (map (\<lambda>v. \<not> isna v) ts) xs) =
   keyed_rows ts xs"
  unfolding keyed_rows_def
  using filter_select_self [of "\<lambda>v. \<not> isna v" ts xs] by simp

lemma select_self_valid:
  "list_ex (\<lambda>v. \<not> isna v) ts \<Longrightarrow> \<not> list_all isna (select (map (\<lambda>v. \<not> isna v) ts) ts)"
  by (induction ts) auto

lemma get_time_series_data_run:
  assumes "get_column df ''TIMESTAMP'' = Some tc" "dtype tc = Datetime64"
    "\<not> list_all isna (cells tc)"
    "get_column df column = Some vc"
  shows "get_time_series_data L G df column group_by =
     (case mean_error G (dtype vc) of
        Some e \<Rightarrow> Inl e
      | None \<Rightarrow>
          (case get_column df group_by of
             Some gc \<Rightarrow>
               if group_by = ''TIMESTAMP'' \<or> group_by = column then Inl ValueError
               else Inr (grouped_means L G (dtype vc) (cells tc) (cells gc) (cells vc))
           | None \<Rightarrow> Inr [Str ''all'' \<mapsto> all_means L G (dtype vc) (cells tc) (cells vc)]))"
  using assms by (simp add: get_time_series_data_def)

lemma all_means_select:
  "all_means L G t (select (map (\<lambda>v. \<not> isna v) ts) ts) (select (map (\<lambda>v. \<not> isna v) ts) vs) =
   all_means L G t ts vs"
  by (simp add: all_means_def keyed_rows_select)

lemma grouped_means_select:
  "grouped_means L G t (select (map (\<lambda>v. \<not> isna v) ts) ts)
     (select (map (\<lambda>v. \<not> isna v) ts) gs) (select (map (\<lambda>v. \<not> isna v) ts) vs) =
   grouped_means L G t ts gs vs"
  by (simp add: grouped_means_def keyed_rows_select select_zip [symmetric])

text \<open>
  Where the TIMESTAMP column is of datetime dtype and holds at least one timestamp, the
  rows whose TIMESTAMP is missing contribute to no day and to no mean: the extraction
  gives for the frame what it gives for the frame without these rows, whatever the
  parameters are.
\<close>

lemma time_series_without_null_timestamps:
  assumes "get_column df ''TIMESTAMP'' = Some tc" "dtype tc = Datetime64"
    "list_ex (\<lambda>v. \<not> isna v) (cells tc)"
  shows "get_time_series_data L G (drop_null_timestamps df) column group_by =
         get_time_series_data L G df column group_by"
proof (cases "get_column df column")
  case None
  then show ?thesis
    using assms(1)
    by (simp add: get_time_series_data_def drop_null_timestamps_def get_column_select_rows)
next
  case (Some vc)
  let ?bs = "map (\<lambda>v. \<not> isna v) (cells tc)"
  let ?df' = "select_rows ?bs df"
  let ?tc' = "Column (dtype tc) (select ?bs (cells tc))"
  let ?vc' = "Column (dtype vc) (select ?bs (cells vc))"
  have d: "drop_null_timestamps df = ?df'"
    using assms(1) by (simp add: drop_null_timestamps_def)
  have t': "get_column ?df' ''TIMESTAMP'' = Some ?tc'" and v': "get_column ?df' column = Some ?vc'"
    using assms(1) Some by (simp_all add: get_column_select_rows)
  have n: "\<not> list_all isna (cells tc)"
    using assms(3) by (auto simp: list_ex_iff list_all_iff)
  have n': "\<not> list_all isna (cells ?tc')"
    using select_self_valid [OF assms(3)] by simp
  have dt': "dtype ?tc' = Datetime64"
    using assms(2) by simp
  note run = get_time_series_data_run [OF assms(1,2) n Some, of L G group_by]
  note run' = get_time_series_data_run [OF t' dt' n' v', of L G group_by]
  show ?thesis
    unfolding d run run'
    by (cases "get_column df group_by")
      (simp_all add: get_column_select_rows all_means_select grouped_means_select
        split: option.splits)
qed

lemma day_label_example: "day_label iso_lib 19723 = ''2024-01-01''"
  using iso_date_example by (simp add: day_label_def iso_lib_def ns_per_day_def)

text \<open>
  An example: the reading without a timestamp takes no part in the mean of the day,
  which is 15 with it and without it.
\<close>

lemma series_frame_result:
  "\<exists>r. get_time_series_data iso_lib pandas2 series_frame ''TEMP'' ''VESSEL_NAME'' = Inr r \<and>
     get_time_series_data iso_lib pandas2 (drop_null_timestamps series_frame)
       ''TEMP'' ''VESSEL_NAME'' = Inr r \<and>
     r (Str ''A'') = Some ([''2024-01-01''], [Num 15])"
proof -
  have t: "get_column series_frame ''TIMESTAMP'' =
      Some (Column Datetime64 [Stamp 1704096000000000000, Null, Stamp 1704099600000000000])"
    by (simp add: get_column_def series_frame_def)
  have same: "get_time_series_data iso_lib pandas2 (drop_null_timestamps series_frame)
       ''TEMP'' ''VESSEL_NAME'' =
     get_time_series_data iso_lib pandas2 series_frame ''TEMP'' ''VESSEL_NAME''"
    by (rule time_series_without_null_timestamps [OF t]) (simp_all add: isna_def)
  have "\<exists>r. get_time_series_data iso_lib pandas2 series_frame ''TEMP'' ''VESSEL_NAME'' = Inr r \<and>
     r (Str ''A'') = Some ([''2024-01-01''], [Num 15])"
    by (simp add: get_time_series_data_def series_frame_def get_column_def pandas2_def
        grouped_means_def keyed_rows_def isna_def day_of_def ns_per_day_def day_mean_def
        exact_mean_def mean_def day_label_example Let_def)
  with same show ?thesis by auto
qed

text \<open>
  Claim C10. The extraction does not exclude the rows whose TIMESTAMP is missing when
  they are all the rows of the frame: the day grouper is then handed a column without
  one valid timestamp, and where it raises there (AttributeError on pandas 1.5 to 2.3)
  the error leaves \<^verbatim>\<open>get_time_series_data\<close>, which has no guard for this case, with or
  without a grouping column.
\<close>

theorem get_time_series_data_all_nat_raises:
  "wf_df no_stamp_frame \<and>
   get_column no_stamp_frame ''TIMESTAMP'' = Some (Column Datetime64 [Null]) \<and>
   get_column no_stamp_frame ''TEMP'' = Some (Column Float64 [Num 10]) \<and>
   get_time_series_data L (G\<lparr>binning_all_nat := Some e\<rparr>) no_stamp_frame ''TEMP'' g = Inl e \<and>
   get_time_series_data iso_lib pandas2 no_stamp_frame ''TEMP'' ''VESSEL_NAME'' =
     Inl AttributeError \<and>
   get_time_series_data iso_lib pandas2 no_stamp_frame ''TEMP'' ''none'' = Inl AttributeError"
  by (simp add: get_time_series_data_def no_stamp_frame_def get_column_def isna_def
      pandas2_def wf_df_def)

end
